theory Spec2Isabelle
  imports Main
begin

section \<open>Errors\<close>

text \<open>
  Every way in which the script, or an operation it relies on, can stop early.
  The first six are the Python exceptions the script itself can meet
  (datetime arithmetic out of range, a local target file that is missing, a
  local target file that is empty, a dictionary subscript on an absent key, a
  payload of the wrong kind, a file that is already there); the others are the
  typed failures of the trust model.
\<close>

datatype error =
    OverflowError
  | FileNotFoundError
  | ValueError
  | KeyError string
  | AttributeError
  | FileExistsError
  | RotationError
  | VersionConflict
  | ConsistencyError

definition bind_err :: "error + 'a \<Rightarrow> ('a \<Rightarrow> error + 'b) \<Rightarrow> error + 'b" where
  "bind_err m f = (case m of Inl e \<Rightarrow> Inl e | Inr x \<Rightarrow> f x)"

section \<open>Dictionaries\<close>

text \<open>
  A Python dict keeps its keys in insertion order and overwrites in place; it is
  modelled as an association list without repeated keys, read with \<open>map_of\<close>.
\<close>

type_synonym ('k, 'v) dict = "('k \<times> 'v) list"

fun dict_set :: "'k \<Rightarrow> 'v \<Rightarrow> ('k, 'v) dict \<Rightarrow> ('k, 'v) dict" where
  "dict_set k v [] = [(k, v)]"
| "dict_set k v ((k', v') # kvs) =
     (if k = k' then (k, v) # kvs else (k', v') # dict_set k v kvs)"

definition dict_get :: "('k, 'v) dict \<Rightarrow> 'k \<Rightarrow> string \<Rightarrow> error + 'v" where
  \<comment> \<open>\<open>d[k]\<close>: raises KeyError on an absent key; the string names the key in the error\<close>
  "dict_get d k nm = (case map_of d k of None \<Rightarrow> Inl (KeyError nm) | Some v \<Rightarrow> Inr v)"

section \<open>Time\<close>

text \<open>
  A naive \<open>datetime\<close> is the number of microseconds since 0001-01-01T00:00:00.
  The largest one Python represents is 9999-12-31T23:59:59.999999, day
  number 3652059 of the proleptic calendar.
\<close>

type_synonym datetime = int

definition us_per_second :: int where
  "us_per_second = 1000000"

definition us_per_day :: int where
  "us_per_day = 86400 * us_per_second"

definition datetime_max :: datetime where
  "datetime_max = 3652059 * us_per_day - 1"

definition replace_microsecond_0 :: "datetime \<Rightarrow> datetime" where
  \<comment> \<open>\<open>.replace(microsecond=0)\<close>\<close>
  "replace_microsecond_0 t = t - t mod us_per_second"

definition add_days :: "datetime \<Rightarrow> int \<Rightarrow> error + datetime" where
  \<comment> \<open>\<open>dt + timedelta(days=n)\<close>: OverflowError when the sum leaves the datetime range\<close>
  "add_days t n =
     (let r = t + n * us_per_day
      in if r < 0 \<or> datetime_max < r then Inl OverflowError else Inr r)"

definition in_days :: "datetime \<Rightarrow> int \<Rightarrow> error + datetime" where
  \<comment> \<open>\<open>_in(days)\<close>, with the reading of \<open>datetime.utcnow()\<close> as first argument;
      the script calls it with whole numbers of days only\<close>
  "in_days now days = add_days (replace_microsecond_0 now) days"

section \<open>Strings\<close>

definition digit_char :: "nat \<Rightarrow> char" where
  "digit_char n = ''0123456789'' ! (n mod 10)"

fun str_nat :: "nat \<Rightarrow> string" where
  "str_nat n = (if n < 10 then [digit_char n] else str_nat (n div 10) @ [digit_char (n mod 10)])"

declare str_nat.simps [simp del]

definition str_int :: "int \<Rightarrow> string" where
  \<comment> \<open>\<open>str(i)\<close>, which is what an f-string does to an integer field\<close>
  "str_int i = (if i < 0 then CHR ''-'' # str_nat (nat (- i)) else str_nat (nat i))"

definition path_join :: "string \<Rightarrow> string \<Rightarrow> string" where
  \<comment> \<open>\<open>os.path.join(a, b)\<close> on a POSIX system\<close>
  "path_join a b =
     (if b \<noteq> [] \<and> hd b = CHR ''/'' then b
      else if a = [] \<or> last a = CHR ''/'' then a @ b
      else a @ CHR ''/'' # b)"

section \<open>Data model\<close>

text \<open>
  \<open>key_pair\<close> is the dictionary \<open>generate_ed25519_key()\<close> returns, \<open>key\<close> its public
  part as \<open>Key.from_securesystemslib_key\<close> keeps it.
\<close>

record key_pair =
  kp_keyid :: string
  kp_scheme :: string
  kp_public :: string
  kp_private :: string

record key =
  key_keyid :: string
  key_scheme :: string
  key_public :: string

definition from_securesystemslib_key :: "key_pair \<Rightarrow> key" where
  "from_securesystemslib_key kp =
     \<lparr>key_keyid = kp_keyid kp, key_scheme = kp_scheme kp, key_public = kp_public kp\<rparr>"

record signature =
  sig_keyid :: string
  sig_bytes :: string

record role =
  keyids :: "string list"
  threshold :: int

record target_file =
  tf_path :: string
  tf_length :: int
  tf_hashes :: "(string, string) dict"

datatype role_body =
    RootBody bool "(string, key) dict" "(string, role) dict"
  | TargetsBody "(string, target_file) dict"
  | SnapshotBody "(string, int) dict"
  | TimestampBody int

record role_signed =
  version :: int
  expires :: datetime
  body :: role_body

record metadata =
  signed :: role_signed
  signatures :: "signature list"

fun role_type :: "role_body \<Rightarrow> string" where
  \<comment> \<open>the \<open>type\<close> attribute of a payload\<close>
  "role_type (RootBody cs ks rs) = ''root''"
| "role_type (TargetsBody ts) = ''targets''"
| "role_type (SnapshotBody m) = ''snapshot''"
| "role_type (TimestampBody v) = ''timestamp''"

section \<open>What the script takes from outside\<close>

text \<open>
  The collaborators of the trust model: the cryptographic primitive and the canonical
  encoder of a payload.
\<close>

record collab =
  crypto_sign :: "string \<Rightarrow> string \<Rightarrow> string"
  crypto_verify :: "string \<Rightarrow> string \<Rightarrow> string \<Rightarrow> bool"
  canonical :: "role_signed \<Rightarrow> string"

text \<open>
  The environment of one run: the successive readings of the clock, the successive
  key pairs the generator hands out, the working directory, length and hashes of
  each local file that exists, and the name of the fresh directory \<open>mkdtemp\<close> makes.
\<close>

record world =
  utcnow :: "nat \<Rightarrow> datetime"
  generate_ed25519_key :: "nat \<Rightarrow> key_pair"
  getcwd :: string
  local_file :: "string \<Rightarrow> (int \<times> (string, string) dict) option"
  mkdtemp :: string

text \<open>
  The script builds every payload with the constructor's defaults and sets only
  \<open>expires\<close>. The defaults belong to the metadata library, which is not part of
  this repository; they are parameters of the model.
\<close>

record tuf_defaults =
  d_version :: int
  d_consistent_snapshot :: bool
  d_root_keys :: "(string, key) dict"
  d_root_roles :: "(string, role) dict"
  d_targets :: "(string, target_file) dict"
  d_meta :: "(string, int) dict"
  d_snapshot_meta :: int

definition new_root :: "tuf_defaults \<Rightarrow> datetime \<Rightarrow> role_signed" where
  "new_root d e = \<lparr>version = d_version d, expires = e,
     body = RootBody (d_consistent_snapshot d) (d_root_keys d) (d_root_roles d)\<rparr>"

definition new_targets :: "tuf_defaults \<Rightarrow> datetime \<Rightarrow> role_signed" where
  "new_targets d e = \<lparr>version = d_version d, expires = e, body = TargetsBody (d_targets d)\<rparr>"

definition new_snapshot :: "tuf_defaults \<Rightarrow> datetime \<Rightarrow> role_signed" where
  "new_snapshot d e = \<lparr>version = d_version d, expires = e, body = SnapshotBody (d_meta d)\<rparr>"

definition new_timestamp :: "tuf_defaults \<Rightarrow> datetime \<Rightarrow> role_signed" where
  "new_timestamp d e =
     \<lparr>version = d_version d, expires = e, body = TimestampBody (d_snapshot_meta d)\<rparr>"

definition new_metadata :: "role_signed \<Rightarrow> metadata" where
  \<comment> \<open>\<open>Metadata(payload)\<close>: an envelope that carries no signature yet\<close>
  "new_metadata p = \<lparr>signed = p, signatures = []\<rparr>"

section \<open>Operations of the metadata library the script calls\<close>

definition from_file :: "world \<Rightarrow> string \<Rightarrow> string \<Rightarrow> error + target_file" where
  \<comment> \<open>\<open>TargetFile.from_file(target_file_path, local_path)\<close>: length and hashes are those
      of the file at the local path, the path recorded is the target path given; the
      constructor of the entry refuses a length that is not positive\<close>
  "from_file w target_file_path local_path =
     (case local_file w local_path of
        None \<Rightarrow> Inl FileNotFoundError
      | Some (n, hs) \<Rightarrow>
          if n \<le> 0 then Inl ValueError
          else Inr \<lparr>tf_path = target_file_path, tf_length = n, tf_hashes = hs\<rparr>)"

text \<open>
  Modelled from the spec: \<open>Root.add_key\<close> is a method of the metadata library, absent
  from the sources. Section 4.1: idempotent by key identifier; appends to the keys of
  the root payload and to the key identifiers of the named role if absent. A role
  name the root payload does not list is a failed dictionary subscript.
\<close>

definition add_key :: "string \<Rightarrow> key \<Rightarrow> role_signed \<Rightarrow> error + role_signed" where
  "add_key name k p =
     (case body p of
        RootBody cs ks rs \<Rightarrow>
          (case map_of rs name of
             None \<Rightarrow> Inl (KeyError name)
           | Some r \<Rightarrow>
               Inr (p\<lparr>body := RootBody cs
                 (if key_keyid k \<in> fst ` set ks then ks else ks @ [(key_keyid k, k)])
                 (dict_set name
                    (r\<lparr>keyids := (if key_keyid k \<in> set (keyids r) then keyids r
                                   else keyids r @ [key_keyid k])\<rparr>) rs)\<rparr>))
      | _ \<Rightarrow> Inl AttributeError)"

definition set_role_threshold :: "string \<Rightarrow> int \<Rightarrow> role_signed \<Rightarrow> error + role_signed" where
  \<comment> \<open>\<open>payload.roles[name].threshold = n\<close>: a plain attribute assignment\<close>
  "set_role_threshold name n p =
     (case body p of
        RootBody cs ks rs \<Rightarrow>
          (case map_of rs name of
             None \<Rightarrow> Inl (KeyError name)
           | Some r \<Rightarrow> Inr (p\<lparr>body := RootBody cs ks (dict_set name (r\<lparr>threshold := n\<rparr>) rs)\<rparr>))
      | _ \<Rightarrow> Inl AttributeError)"

definition set_target :: "string \<Rightarrow> target_file \<Rightarrow> role_signed \<Rightarrow> error + role_signed" where
  \<comment> \<open>\<open>payload.targets[path] = info\<close>\<close>
  "set_target path info p =
     (case body p of
        TargetsBody ts \<Rightarrow> Inr (p\<lparr>body := TargetsBody (dict_set path info ts)\<rparr>)
      | _ \<Rightarrow> Inl AttributeError)"

text \<open>
  Modelled from the spec: \<open>Metadata.sign\<close> is a method of the metadata library, absent
  from the sources. Section 4.5: computes a signature over the canonical encoding of
  the payload and appends it, replacing any prior signature from the same key
  identifier.
\<close>

definition make_signature :: "collab \<Rightarrow> key_pair \<Rightarrow> role_signed \<Rightarrow> signature" where
  "make_signature c kp p =
     \<lparr>sig_keyid = kp_keyid kp, sig_bytes = crypto_sign c (kp_private kp) (canonical c p)\<rparr>"

definition sign :: "collab \<Rightarrow> key_pair \<Rightarrow> metadata \<Rightarrow> metadata" where
  "sign c kp md =
     md\<lparr>signatures :=
          filter (\<lambda>s. sig_keyid s \<noteq> kp_keyid kp) (signatures md)
          @ [make_signature c kp (signed md)]\<rparr>"

text \<open>
  Modelled from the spec: \<open>Metadata.to_file\<close> hands the serialised envelope to the
  storage collaborator. Section 6: \<open>put(filename, bytes)\<close> must fail, not overwrite,
  if the filename exists. A stored file is kept as the envelope it encodes.
\<close>

type_synonym storage = "(string, metadata) dict"

definition to_file :: "string \<Rightarrow> metadata \<Rightarrow> storage \<Rightarrow> error + storage" where
  "to_file path md fs =
     (if path \<in> fst ` set fs then Inl FileExistsError else Inr (fs @ [(path, md)]))"

section \<open>The script\<close>

text \<open>
  The state of the script: its two module-level dictionaries \<open>roles\<close> and \<open>keys\<close>, and
  the files under the fresh output directory, in the order they were written.
\<close>

record repo =
  roles :: "(string, metadata) dict"
  keys :: "(string, key_pair) dict"
  files :: storage

definition target1_path :: string where
  "target1_path = ''root.layout''"

definition target2_path :: string where
  "target2_path = ''alice.pub''"

definition update_signed ::
  "string \<Rightarrow> (role_signed \<Rightarrow> error + role_signed) \<Rightarrow> repo \<Rightarrow> error + repo" where
  \<comment> \<open>a mutation of \<open>roles[name].signed\<close> in place\<close>
  "update_signed name f st =
     bind_err (dict_get (roles st) name name) (\<lambda>md.
     bind_err (f (signed md)) (\<lambda>p.
     Inr (st\<lparr>roles := dict_set name (md\<lparr>signed := p\<rparr>) (roles st)\<rparr>)))"

definition create_targets :: "tuf_defaults \<Rightarrow> world \<Rightarrow> repo \<Rightarrow> error + repo" where
  \<comment> \<open>the targets role and its two entries\<close>
  "create_targets d w st =
     bind_err (in_days (utcnow w 0) 7) (\<lambda>e.
     let st1 = st\<lparr>roles := dict_set ''targets'' (new_metadata (new_targets d e)) (roles st)\<rparr>;
         target1_local_path = getcwd w @ ''/root.layout'';
         target2_local_path = getcwd w @ ''/alice.pub''
     in
     bind_err (from_file w target1_path target1_local_path) (\<lambda>target1_file_info.
     bind_err (from_file w target1_path target2_local_path) (\<lambda>target2_file_info.
     bind_err (update_signed ''targets'' (set_target target1_path target1_file_info) st1) (\<lambda>st2.
     update_signed ''targets'' (set_target target2_path target2_file_info) st2))))"

definition create_others :: "tuf_defaults \<Rightarrow> world \<Rightarrow> repo \<Rightarrow> error + repo" where
  \<comment> \<open>the snapshot, timestamp and root roles\<close>
  "create_others d w st =
     bind_err (in_days (utcnow w 1) 7) (\<lambda>e1.
     bind_err (in_days (utcnow w 2) 1) (\<lambda>e2.
     bind_err (in_days (utcnow w 3) 365) (\<lambda>e3.
     Inr (st\<lparr>roles :=
            dict_set ''root'' (new_metadata (new_root d e3))
              (dict_set ''timestamp'' (new_metadata (new_timestamp d e2))
                 (dict_set ''snapshot'' (new_metadata (new_snapshot d e1)) (roles st)))\<rparr>))))"

fun add_keys :: "world \<Rightarrow> string list \<Rightarrow> nat \<Rightarrow> repo \<Rightarrow> error + repo" where
  \<comment> \<open>the loop that generates one key pair per name and authorises it in root; the
      number counts the key pairs generated so far\<close>
  "add_keys w [] i st = Inr st"
| "add_keys w (name # names) i st =
     (let st1 = st\<lparr>keys := dict_set name (generate_ed25519_key w i) (keys st)\<rparr>
      in bind_err (dict_get (keys st1) name name) (\<lambda>kp.
         bind_err (update_signed ''root'' (add_key name (from_securesystemslib_key kp)) st1)
           (add_keys w names (Suc i))))"

definition add_another_root_key :: "world \<Rightarrow> repo \<Rightarrow> error + repo" where
  \<comment> \<open>the fifth key pair, authorised for root\<close>
  "add_another_root_key w st =
     (let another_root_key = generate_ed25519_key w 4
      in update_signed ''root'' (add_key ''root'' (from_securesystemslib_key another_root_key)) st)"

definition set_root_threshold :: "repo \<Rightarrow> error + repo" where
  \<comment> \<open>\<open>roles["root"].signed.roles["root"].threshold = 1\<close>\<close>
  "set_root_threshold st = update_signed ''root'' (set_role_threshold ''root'' 1) st"

fun sign_all :: "collab \<Rightarrow> string list \<Rightarrow> repo \<Rightarrow> error + repo" where
  \<comment> \<open>the signing loop\<close>
  "sign_all c [] st = Inr st"
| "sign_all c (name # names) st =
     bind_err (dict_get (roles st) name name) (\<lambda>md.
     bind_err (dict_get (keys st) (role_type (body (signed md))) (role_type (body (signed md))))
       (\<lambda>key.
     sign_all c names (st\<lparr>roles := dict_set name (sign c key md) (roles st)\<rparr>)))"

definition versioned_filename :: "metadata \<Rightarrow> string" where
  \<comment> \<open>\<open>f"{md.signed.version}.{md.signed.type}.json"\<close>\<close>
  "versioned_filename md =
     str_int (version (signed md)) @ ''.'' @ role_type (body (signed md)) @ ''.json''"

fun persist_versioned :: "world \<Rightarrow> string list \<Rightarrow> repo \<Rightarrow> error + repo" where
  \<comment> \<open>the loop that writes root, targets and snapshot\<close>
  "persist_versioned w [] st = Inr st"
| "persist_versioned w (name # names) st =
     bind_err (dict_get (roles st) name name) (\<lambda>md.
     let filename = versioned_filename md;
         path = path_join (mkdtemp w) filename
     in bind_err (to_file path md (files st)) (\<lambda>fs.
        persist_versioned w names (st\<lparr>files := fs\<rparr>)))"

definition persist_timestamp :: "world \<Rightarrow> repo \<Rightarrow> error + repo" where
  "persist_timestamp w st =
     bind_err (dict_get (roles st) ''timestamp'' ''timestamp'') (\<lambda>md.
     bind_err (to_file (path_join (mkdtemp w) ''timestamp.json'') md (files st)) (\<lambda>fs.
     Inr (st\<lparr>files := fs\<rparr>)))"

definition empty_repo :: repo where
  "empty_repo = \<lparr>roles = [], keys = [], files = []\<rparr>"

definition create_roles :: "tuf_defaults \<Rightarrow> world \<Rightarrow> error + repo" where
  "create_roles d w = bind_err (create_targets d w empty_repo) (create_others d w)"

definition top_level_names :: "string list" where
  "top_level_names = [''targets'', ''snapshot'', ''timestamp'', ''root'']"

definition manage_keys :: "tuf_defaults \<Rightarrow> world \<Rightarrow> error + repo" where
  "manage_keys d w =
     bind_err (create_roles d w) (\<lambda>st.
     bind_err (add_keys w top_level_names 0 st) (\<lambda>st.
     bind_err (add_another_root_key w st) set_root_threshold))"

definition sign_roles :: "tuf_defaults \<Rightarrow> collab \<Rightarrow> world \<Rightarrow> error + repo" where
  "sign_roles d c w =
     bind_err (manage_keys d w) (sign_all c top_level_names)"

definition main :: "tuf_defaults \<Rightarrow> collab \<Rightarrow> world \<Rightarrow> error + repo" where
  \<comment> \<open>the whole script, top to bottom\<close>
  "main d c w =
     bind_err (sign_roles d c w) (\<lambda>st.
     bind_err (persist_versioned w [''root'', ''targets'', ''snapshot''] st)
       (persist_timestamp w))"

section \<open>Points of the run that the properties refer to\<close>

definition key_ops_prefix :: "tuf_defaults \<Rightarrow> world \<Rightarrow> nat \<Rightarrow> error + repo" where
  \<comment> \<open>the state after the first \<open>k\<close> of the six key-management operations: four
      additions in the loop, the addition of the other root key, the threshold
      assignment\<close>
  "key_ops_prefix d w k =
     bind_err (create_roles d w) (\<lambda>st.
     bind_err (add_keys w (take k top_level_names) 0 st) (\<lambda>st.
     bind_err (if 5 \<le> k then add_another_root_key w st else Inr st) (\<lambda>st.
     if 6 \<le> k then set_root_threshold st else Inr st)))"

definition root_roles_of :: "repo \<Rightarrow> (string, role) dict" where
  \<comment> \<open>\<open>roles["root"].signed.roles\<close>\<close>
  "root_roles_of st =
     (case map_of (roles st) ''root'' of
        None \<Rightarrow> []
      | Some md \<Rightarrow> (case body (signed md) of RootBody cs ks rs \<Rightarrow> rs | _ \<Rightarrow> []))"

definition role_ok :: "role \<Rightarrow> bool" where
  \<comment> \<open>the invariant of a role: \<open>1 \<le> threshold \<le> |keyids|\<close>\<close>
  "role_ok r \<longleftrightarrow> 1 \<le> threshold r \<and> threshold r \<le> int (card (set (keyids r)))"

definition expires_after :: "datetime \<Rightarrow> int \<Rightarrow> metadata \<Rightarrow> bool" where
  \<comment> \<open>the envelope expires a number of days after the clock reading cut to whole
      seconds, which is later than the reading itself\<close>
  "expires_after now n md \<longleftrightarrow>
     expires (signed md) = replace_microsecond_0 now + n * us_per_day \<and>
     expires (signed md) mod us_per_second = 0 \<and>
     now < expires (signed md)"

definition records_own_path :: "(string, target_file) dict \<Rightarrow> bool" where
  \<comment> \<open>every entry of a targets map stores the path it is keyed under\<close>
  "records_own_path ts \<longleftrightarrow> list_all (\<lambda>(p, tf). tf_path tf = p) ts"

definition targets_of :: "metadata \<Rightarrow> (string, target_file) dict" where
  "targets_of md = (case body (signed md) of TargetsBody ts \<Rightarrow> ts | _ \<Rightarrow> [])"

definition persisted_versions :: "storage \<Rightarrow> string \<Rightarrow> int list" where
  \<comment> \<open>the versions of the stored envelopes of one type\<close>
  "persisted_versions fs t =
     map (\<lambda>(p, m). version (signed m)) (filter (\<lambda>(p, m). role_type (body (signed m)) = t) fs)"

definition latest_version :: "storage \<Rightarrow> string \<Rightarrow> int option" where
  "latest_version fs t =
     (case persisted_versions fs t of [] \<Rightarrow> None | v # vs \<Rightarrow> Some (fold max vs v))"

definition meta_key :: "string \<Rightarrow> string" where
  \<comment> \<open>the key under which the metadata library lists a role in the \<open>meta\<close> of a
      snapshot: the name of the role's metadata file, without version\<close>
  "meta_key name = name @ ''.json''"

definition storage_consistent :: "storage \<Rightarrow> bool" where
  \<comment> \<open>every stored snapshot lists the targets role at the latest stored targets
      version, every stored timestamp refers to the latest stored snapshot version;
      the script builds no delegation, so the top-level targets role is the only
      targets role there is\<close>
  "storage_consistent fs \<longleftrightarrow>
     list_all (\<lambda>(p, m).
       case body (signed m) of
         SnapshotBody meta \<Rightarrow>
           (case latest_version fs ''targets'' of
              None \<Rightarrow> False
            | Some v \<Rightarrow> map_of meta (meta_key ''targets'') = Some v)
       | TimestampBody v \<Rightarrow> latest_version fs ''snapshot'' = Some v
       | _ \<Rightarrow> True) fs"

definition created_roles ::
  "tuf_defaults \<Rightarrow> datetime \<Rightarrow> datetime \<Rightarrow> datetime \<Rightarrow> datetime \<Rightarrow>
   target_file \<Rightarrow> target_file \<Rightarrow> (string, metadata) dict" where
  \<comment> \<open>the dictionary \<open>roles\<close> once the four payloads exist, given the four expiry
      dates and the two target entries\<close>
  "created_roles d e0 e1 e2 e3 i1 i2 =
     [(''targets'', \<lparr>signed = \<lparr>version = d_version d, expires = e0,
          body = TargetsBody (dict_set target2_path i2 (dict_set target1_path i1 (d_targets d)))\<rparr>,
          signatures = []\<rparr>),
      (''snapshot'', new_metadata (new_snapshot d e1)),
      (''timestamp'', new_metadata (new_timestamp d e2)),
      (''root'', new_metadata (new_root d e3))]"

section \<open>Threshold verification\<close>

text \<open>
  Modelled from the spec: the verifier is not in the sources. Section 4.3: for each
  collected signature, resolve its key identifier against the key identifiers of the
  role and the keys of root; unknown identifiers are ignored. For each resolved
  identifier, check the signature against the canonical encoding of the payload;
  count at most one valid signature per distinct key identifier. Accept iff the
  count reaches the threshold and the payload expires after the clock reading.
\<close>

datatype reason = ExpiredMetadata | VerificationFailure

datatype verdict = Verified | Rejected reason

fun valid_keyids ::
  "collab \<Rightarrow> (string, key) dict \<Rightarrow> role \<Rightarrow> string \<Rightarrow> signature list \<Rightarrow> string list \<Rightarrow> string list"
where
  \<comment> \<open>the loop over the signatures; the last argument collects the key identifiers
      counted so far\<close>
  "valid_keyids c ks r msg [] seen = seen"
| "valid_keyids c ks r msg (s # ss) seen =
     (if sig_keyid s \<in> set (keyids r) \<and> sig_keyid s \<notin> set seen then
        (case map_of ks (sig_keyid s) of
           None \<Rightarrow> valid_keyids c ks r msg ss seen
         | Some k \<Rightarrow>
             if crypto_verify c (key_public k) msg (sig_bytes s)
             then valid_keyids c ks r msg ss (sig_keyid s # seen)
             else valid_keyids c ks r msg ss seen)
      else valid_keyids c ks r msg ss seen)"

definition valid_count :: "collab \<Rightarrow> (string, key) dict \<Rightarrow> role \<Rightarrow> metadata \<Rightarrow> nat" where
  "valid_count c ks r md =
     length (valid_keyids c ks r (canonical c (signed md)) (signatures md) [])"

definition threshold_met :: "collab \<Rightarrow> (string, key) dict \<Rightarrow> role \<Rightarrow> metadata \<Rightarrow> bool" where
  "threshold_met c ks r md \<longleftrightarrow> threshold r \<le> int (valid_count c ks r md)"

definition verify ::
  "collab \<Rightarrow> (string, key) dict \<Rightarrow> role \<Rightarrow> metadata \<Rightarrow> datetime \<Rightarrow> verdict" where
  "verify c ks r md now =
     (if \<not> now < expires (signed md) then Rejected ExpiredMetadata
      else if threshold_met c ks r md then Verified
      else Rejected VerificationFailure)"

definition signers :: "collab \<Rightarrow> (string, key) dict \<Rightarrow> role \<Rightarrow> metadata \<Rightarrow> string set" where
  \<comment> \<open>the key identifiers authorised for the role, known to root, from which the
      envelope carries a signature that is valid for its payload\<close>
  "signers c ks r md =
     {kid \<in> set (keyids r). \<exists>s \<in> set (signatures md). \<exists>k.
        sig_keyid s = kid \<and> map_of ks kid = Some k \<and>
        crypto_verify c (key_public k) (canonical c (signed md)) (sig_bytes s)}"

section \<open>Root rotation\<close>

text \<open>
  Modelled from the spec: the rotation procedure is not in the sources. Section 4.3:
  a candidate root is accepted only if its signatures reach the threshold of the
  \<open>root\<close> role entry of the old root and, independently, the threshold of the \<open>root\<close>
  role entry of the candidate itself; otherwise RotationError, and the old root
  remains the active trust anchor. The result is the error, if any, and the trust
  anchor that is active afterwards.
\<close>

definition root_entry :: "metadata \<Rightarrow> ((string, key) dict \<times> role) option" where
  \<comment> \<open>the keys of a root envelope and its own \<open>root\<close> role entry\<close>
  "root_entry md =
     (case body (signed md) of
        RootBody cs ks rs \<Rightarrow> (case map_of rs ''root'' of None \<Rightarrow> None | Some r \<Rightarrow> Some (ks, r))
      | _ \<Rightarrow> None)"

definition meets_root_threshold_of :: "collab \<Rightarrow> metadata \<Rightarrow> metadata \<Rightarrow> bool" where
  \<comment> \<open>the signatures of the second envelope reach the root threshold of the first\<close>
  "meets_root_threshold_of c anchor md =
     (case root_entry anchor of None \<Rightarrow> False | Some (ks, r) \<Rightarrow> threshold_met c ks r md)"

definition accept_root :: "collab \<Rightarrow> metadata \<Rightarrow> metadata \<Rightarrow> error option \<times> metadata" where
  "accept_root c active candidate =
     (if meets_root_threshold_of c active candidate \<and>
         meets_root_threshold_of c candidate candidate
      then (None, candidate)
      else (Some RotationError, active))"

section \<open>Publishing\<close>







section \<open>The key phase, seen from the root payload\<close>

text \<open>
  The key phase touches only the keys the script holds and the payload of the root
  envelope. These are its effects, written on those two alone.
\<close>

definition role_dict :: "metadata \<Rightarrow> metadata \<Rightarrow> metadata \<Rightarrow> metadata \<Rightarrow> (string, metadata) dict" where
  \<comment> \<open>the dictionary \<open>roles\<close> with its four entries in the order of creation\<close>
  "role_dict a b c m = [(''targets'', a), (''snapshot'', b), (''timestamp'', c), (''root'', m)]"

fun add_key_seq :: "world \<Rightarrow> string list \<Rightarrow> nat \<Rightarrow> role_signed \<Rightarrow> error + role_signed" where
  \<comment> \<open>the additions of the loop, on the root payload\<close>
  "add_key_seq w [] i p = Inr p"
| "add_key_seq w (name # names) i p =
     bind_err (add_key name (from_securesystemslib_key (generate_ed25519_key w i)) p)
       (add_key_seq w names (Suc i))"

fun generated_keys ::
  "world \<Rightarrow> string list \<Rightarrow> nat \<Rightarrow> (string, key_pair) dict \<Rightarrow> (string, key_pair) dict" where
  \<comment> \<open>the dictionary \<open>keys\<close> after the loop\<close>
  "generated_keys w [] i ks = ks"
| "generated_keys w (name # names) i ks =
     generated_keys w names (Suc i) (dict_set name (generate_ed25519_key w i) ks)"

definition roles_of_payload :: "role_signed \<Rightarrow> (string, role) dict" where
  "roles_of_payload p = (case body p of RootBody cs ks rs \<Rightarrow> rs | _ \<Rightarrow> [])"

definition keys_of_payload :: "role_signed \<Rightarrow> (string, key) dict" where
  "keys_of_payload p = (case body p of RootBody cs ks rs \<Rightarrow> ks | _ \<Rightarrow> [])"

definition role_of :: "role_signed \<Rightarrow> string \<Rightarrow> role option" where
  "role_of p x = map_of (roles_of_payload p) x"

definition key_of :: "role_signed \<Rightarrow> string \<Rightarrow> key option" where
  "key_of p x = map_of (keys_of_payload p) x"

definition signed_roles ::
  "collab \<Rightarrow> world \<Rightarrow> role_signed \<Rightarrow> role_signed \<Rightarrow> role_signed \<Rightarrow> role_signed \<Rightarrow>
   (string, metadata) dict" where
  \<comment> \<open>the dictionary \<open>roles\<close> after the signing loop, given the four payloads\<close>
  "signed_roles c w pt ps pts pr =
     role_dict (sign c (generate_ed25519_key w 0) (new_metadata pt))
               (sign c (generate_ed25519_key w 1) (new_metadata ps))
               (sign c (generate_ed25519_key w 2) (new_metadata pts))
               (sign c (generate_ed25519_key w 3) (new_metadata pr))"

definition written_files :: "world \<Rightarrow> (string, metadata) dict \<Rightarrow> storage" where
  \<comment> \<open>the four files of the output directory in the order they are written, given
      the dictionary \<open>roles\<close>\<close>
  "written_files w rs =
     map (\<lambda>(name, filename). (path_join (mkdtemp w) filename, the (map_of rs name)))
       [(''root'', versioned_filename (the (map_of rs ''root''))),
        (''targets'', versioned_filename (the (map_of rs ''targets''))),
        (''snapshot'', versioned_filename (the (map_of rs ''snapshot''))),
        (''timestamp'', ''timestamp.json'')]"

section \<open>The defaults of the library and a concrete run\<close>

text \<open>
  \<open>fresh_defaults\<close> are the defaults of the payload constructors of the metadata
  library: version 1, consistent snapshots, a root payload without keys that lists
  the four top-level roles, each with threshold 1 and no key yet, no target, a
  snapshot that lists \<open>targets.json\<close> at version 1, and a timestamp that refers to
  snapshot version 1. The rest is one environment in which the script runs to its
  end, for the closed instances of the theorems below. Its cryptographic primitive
  is a toy one in which a signature is the key followed by the message.
\<close>

definition fresh_role :: role where
  "fresh_role = \<lparr>keyids = [], threshold = 1\<rparr>"

definition fresh_defaults :: tuf_defaults where
  "fresh_defaults =
     \<lparr>d_version = 1, d_consistent_snapshot = True, d_root_keys = [],
      d_root_roles = [(''root'', fresh_role), (''timestamp'', fresh_role),
                      (''snapshot'', fresh_role), (''targets'', fresh_role)],
      d_targets = [], d_meta = [(''targets.json'', 1)], d_snapshot_meta = 1\<rparr>"

definition toy_collab :: collab where
  "toy_collab =
     \<lparr>crypto_sign = (\<lambda>priv msg. priv @ msg),
      crypto_verify = (\<lambda>pub msg sg. sg = pub @ msg),
      canonical = (\<lambda>p. role_type (body p))\<rparr>"

definition toy_key_pair :: "string \<Rightarrow> key_pair" where
  "toy_key_pair n = \<lparr>kp_keyid = n, kp_scheme = ''ed25519'', kp_public = n, kp_private = n\<rparr>"

definition toy_world :: world where
  "toy_world =
     \<lparr>utcnow = (\<lambda>i. 63800000000123456 + int i),
      generate_ed25519_key = (\<lambda>i. toy_key_pair ([''k0'', ''k1'', ''k2'', ''k3'', ''k4''] ! i)),
      getcwd = ''/repo'',
      local_file = map_of [(''/repo/root.layout'', (12, [(''sha256'', ''aa'')])),
                           (''/repo/alice.pub'', (34, [(''sha256'', ''bb'')]))],
      mkdtemp = ''/repo/tmpx''\<rparr>"

definition toy_keys :: "string list \<Rightarrow> (string, key) dict" where
  \<comment> \<open>the public keys of the toy key pairs of the given names\<close>
  "toy_keys names = map (\<lambda>n. (n, from_securesystemslib_key (toy_key_pair n))) names"

definition toy_root :: "int \<Rightarrow> string list \<Rightarrow> int \<Rightarrow> role_signed" where
  \<comment> \<open>a root payload of the given version whose \<open>root\<close> role authorises the keys of
      the given names with the given threshold\<close>
  "toy_root v names t =
     \<lparr>version = v, expires = 63831536000000000,
      body = RootBody True (toy_keys names) [(''root'', \<lparr>keyids = names, threshold = t\<rparr>)]\<rparr>"

definition signed_by :: "string list \<Rightarrow> role_signed \<Rightarrow> metadata" where
  \<comment> \<open>the envelope of a payload, signed in turn with the toy key pairs of the given
      names\<close>
  "signed_by names p = fold (sign toy_collab) (map toy_key_pair names) (new_metadata p)"

definition defaults_at_version :: "int \<Rightarrow> tuf_defaults" where
  \<comment> \<open>payload defaults that differ from those of the library in the version only\<close>
  "defaults_at_version v = fresh_defaults\<lparr>d_version := v\<rparr>"



section \<open>Basic facts\<close>

lemma bind_err_Inr_iff:
  "bind_err m f = Inr y \<longleftrightarrow> (\<exists>x. m = Inr x \<and> f x = Inr y)"
  by (cases m) (simp_all add: bind_err_def)

lemma in_days_Inr:
  assumes "in_days now n = Inr e"
  shows "e = replace_microsecond_0 now + n * us_per_day"
  using assms by (simp add: in_days_def add_days_def Let_def split: if_splits)

lemma in_days_future:
  assumes "in_days now n = Inr e" and "0 < n"
  shows "now < e"
proof -
  have e: "e = now - now mod 1000000 + n * 86400000000"
    using in_days_Inr [OF assms(1)]
    by (simp add: replace_microsecond_0_def us_per_day_def us_per_second_def)
  have "now mod 1000000 < 1000000" by simp
  moreover have "86400000000 \<le> n * 86400000000" using assms(2) by simp
  ultimately show ?thesis unfolding e by linarith
qed

lemma in_days_expires_after:
  assumes "in_days now n = Inr e" and "0 < n" and "expires (signed md) = e"
  shows "expires_after now n md"
proof -
  have "e mod us_per_second = 0"
    using in_days_Inr [OF assms(1)]
    by (simp add: replace_microsecond_0_def us_per_day_def us_per_second_def)
  with in_days_Inr [OF assms(1)] in_days_future [OF assms(1,2)] assms(3)
  show ?thesis by (simp add: expires_after_def)
qed

section \<open>Creation of the four payloads\<close>

lemma create_roles_result:
  assumes "create_roles d w = Inr st"
  shows "\<exists>e0 e1 e2 e3 i1 i2.
           in_days (utcnow w 0) 7 = Inr e0 \<and> in_days (utcnow w 1) 7 = Inr e1 \<and>
           in_days (utcnow w 2) 1 = Inr e2 \<and> in_days (utcnow w 3) 365 = Inr e3 \<and>
           from_file w target1_path (getcwd w @ ''/root.layout'') = Inr i1 \<and>
           from_file w target1_path (getcwd w @ ''/alice.pub'') = Inr i2 \<and>
           st = \<lparr>roles = created_roles d e0 e1 e2 e3 i1 i2, keys = [], files = []\<rparr>"
  using assms
  unfolding create_roles_def create_targets_def create_others_def bind_err_Inr_iff Let_def
  by (auto simp: update_signed_def bind_err_Inr_iff dict_get_def set_target_def empty_repo_def
      new_metadata_def new_targets_def created_roles_def)

lemma create_roles_toy: "\<not> isl (create_roles fresh_defaults toy_world)"
  by code_simp

text \<open>
  C8. Each of the four payloads the script creates expires at the clock reading of
  its creation, cut to whole seconds, plus a positive number of days: 7 for targets
  and snapshot, 1 for timestamp, 365 for root. That date is a whole number of
  seconds and is later than the clock reading.
\<close>

theorem payload_expires_in_future:
  assumes "create_roles d w = Inr st"
  shows "\<exists>mt ms mts mr.
           roles st = [(''targets'', mt), (''snapshot'', ms), (''timestamp'', mts), (''root'', mr)] \<and>
           expires_after (utcnow w 0) 7 mt \<and> expires_after (utcnow w 1) 7 ms \<and>
           expires_after (utcnow w 2) 1 mts \<and> expires_after (utcnow w 3) 365 mr"
proof -
  from create_roles_result [OF assms] obtain e0 e1 e2 e3 i1 i2 where
    e: "in_days (utcnow w 0) 7 = Inr e0" "in_days (utcnow w 1) 7 = Inr e1"
       "in_days (utcnow w 2) 1 = Inr e2" "in_days (utcnow w 3) 365 = Inr e3"
    and st: "st = \<lparr>roles = created_roles d e0 e1 e2 e3 i1 i2, keys = [], files = []\<rparr>"
    by blast
  show ?thesis
    unfolding st created_roles_def
    using in_days_expires_after [OF e(1)] in_days_expires_after [OF e(2)]
          in_days_expires_after [OF e(3)] in_days_expires_after [OF e(4)]
    by (simp add: new_metadata_def new_snapshot_def new_timestamp_def new_root_def)
qed

theorem payload_expires_in_future_witness:
  "create_roles fresh_defaults toy_world = Inr (projr (create_roles fresh_defaults toy_world)) \<and>
   map (\<lambda>(n, md). (n, expires (signed md), utcnow toy_world 0 < expires (signed md)))
     (roles (projr (create_roles fresh_defaults toy_world))) =
   [(''targets'', 63800604800000000, True), (''snapshot'', 63800604800000000, True),
    (''timestamp'', 63800086400000000, True), (''root'', 63831536000000000, True)]"
proof -
  have h: "create_roles fresh_defaults toy_world = Inr (projr (create_roles fresh_defaults toy_world))"
    using create_roles_toy by simp
  from payload_expires_in_future [OF h] show ?thesis
    using h
    by (auto simp: expires_after_def toy_world_def replace_microsecond_0_def us_per_day_def
        us_per_second_def)
qed

section \<open>Target entries\<close>

lemma map_of_dict_set:
  "map_of (dict_set k v d) k' = (if k' = k then Some v else map_of d k')"
  by (induction d) auto

lemma dict_set_mem: "(k, v) \<in> set (dict_set k v d)"
  by (induction d) auto

lemma dict_set_other_mem:
  "k' \<noteq> k \<Longrightarrow> (k', v') \<in> set d \<Longrightarrow> (k', v') \<in> set (dict_set k v d)"
  by (induction d) auto

lemma from_file_path: "from_file w p l = Inr i \<Longrightarrow> tf_path i = p"
  by (auto simp: from_file_def split: option.splits if_splits)

text \<open>
  C9. The claim fails on the script: the file info of the second target is built
  with the path of the first, so the entry keyed \<open>alice.pub\<close> stores the path
  \<open>root.layout\<close>. The targets map of the script does not record each key in its
  entry, and the stored paths are not pairwise distinct.
\<close>

theorem second_target_records_first_path:
  assumes "create_roles d w = Inr st"
  shows "\<exists>mt i2. map_of (roles st) ''targets'' = Some mt \<and>
           map_of (targets_of mt) ''alice.pub'' = Some i2 \<and>
           tf_path i2 = ''root.layout'' \<and>
           \<not> records_own_path (targets_of mt) \<and>
           \<not> distinct (map (\<lambda>(p, tf). tf_path tf) (targets_of mt))"
proof -
  from create_roles_result [OF assms] obtain e0 e1 e2 e3 i1 i2 where
    i1: "from_file w target1_path (getcwd w @ ''/root.layout'') = Inr i1"
    and i2: "from_file w target1_path (getcwd w @ ''/alice.pub'') = Inr i2"
    and st: "st = \<lparr>roles = created_roles d e0 e1 e2 e3 i1 i2, keys = [], files = []\<rparr>"
    by blast
  define ts where "ts = dict_set target2_path i2 (dict_set target1_path i1 (d_targets d))"
  define mt where "mt = \<lparr>signed = \<lparr>version = d_version d, expires = e0, body = TargetsBody ts\<rparr>,
    signatures = []\<rparr>"
  have p1: "tf_path i1 = ''root.layout''" and p2: "tf_path i2 = ''root.layout''"
    using from_file_path [OF i1] from_file_path [OF i2] by (simp_all add: target1_path_def)
  have mt: "map_of (roles st) ''targets'' = Some mt"
    by (simp add: st created_roles_def mt_def ts_def)
  have tof: "targets_of mt = ts" by (simp add: targets_of_def mt_def)
  have look: "map_of ts ''alice.pub'' = Some i2"
    by (simp add: ts_def map_of_dict_set target2_path_def)
  have m2: "(''alice.pub'', i2) \<in> set ts"
    unfolding ts_def target2_path_def by (rule dict_set_mem)
  have m1: "(''root.layout'', i1) \<in> set ts"
    unfolding ts_def target2_path_def target1_path_def
    by (rule dict_set_other_mem) (simp_all add: dict_set_mem)
  have own: "\<not> records_own_path ts"
    unfolding records_own_path_def list_all_iff
    using p2 by (auto intro!: bexI [OF _ m2])
  have dist: "\<not> distinct (map (\<lambda>(p, tf). tf_path tf) ts)"
  proof
    assume "distinct (map (\<lambda>(p, tf). tf_path tf) ts)"
    then have "inj_on (\<lambda>(p, tf). tf_path tf) (set ts)" by (simp add: distinct_map)
    from inj_onD [OF this _ m1 m2] p1 p2 show False by simp
  qed
  show ?thesis
    by (rule exI [of _ mt], rule exI [of _ i2]) (simp add: mt look p2 own dist tof)
qed

theorem second_target_records_first_path_witness:
  "create_roles fresh_defaults toy_world = Inr (projr (create_roles fresh_defaults toy_world)) \<and>
   map (\<lambda>(p, tf). (p, tf_path tf))
     (targets_of (the (map_of (roles (projr (create_roles fresh_defaults toy_world))) ''targets''))) =
   [(''root.layout'', ''root.layout''), (''alice.pub'', ''root.layout'')]"
proof -
  have h: "create_roles fresh_defaults toy_world = Inr (projr (create_roles fresh_defaults toy_world))"
    using create_roles_toy by simp
  have "map (\<lambda>(p, tf). (p, tf_path tf))
     (targets_of (the (map_of (roles (projr (create_roles fresh_defaults toy_world))) ''targets''))) =
   [(''root.layout'', ''root.layout''), (''alice.pub'', ''root.layout'')]"
    by code_simp
  with h second_target_records_first_path [OF h] show ?thesis by blast
qed

section \<open>The key phase\<close>

lemma update_signed_root:
  assumes "roles st = role_dict a b c m" and "update_signed ''root'' f st = Inr st'"
  shows "\<exists>p. f (signed m) = Inr p \<and> st' = st\<lparr>roles := role_dict a b c (m\<lparr>signed := p\<rparr>)\<rparr>"
  using assms
  by (auto simp: update_signed_def bind_err_Inr_iff dict_get_def role_dict_def)

lemma add_keys_result:
  assumes "roles st = role_dict a b c m" and "add_keys w ns i st = Inr st'"
  shows "\<exists>p. add_key_seq w ns i (signed m) = Inr p \<and>
           st' = st\<lparr>roles := role_dict a b c (m\<lparr>signed := p\<rparr>),
                    keys := generated_keys w ns i (keys st)\<rparr>"
  using assms
proof (induction ns arbitrary: i st m)
  case Nil
  then show ?case by simp
next
  case (Cons n ns)
  let ?st1 = "st\<lparr>keys := dict_set n (generate_ed25519_key w i) (keys st)\<rparr>"
  have r1: "roles ?st1 = role_dict a b c m" using Cons.prems(1) by simp
  from Cons.prems(2) obtain st2 where
    u: "update_signed ''root''
          (add_key n (from_securesystemslib_key (generate_ed25519_key w i))) ?st1 = Inr st2"
    and rest: "add_keys w ns (Suc i) st2 = Inr st'"
    by (auto simp: Let_def bind_err_Inr_iff dict_get_def map_of_dict_set split: option.splits)
  from update_signed_root [OF r1 u] obtain p1 where
    p1: "add_key n (from_securesystemslib_key (generate_ed25519_key w i)) (signed m) = Inr p1"
    and st2: "st2 = ?st1\<lparr>roles := role_dict a b c (m\<lparr>signed := p1\<rparr>)\<rparr>"
    by blast
  have r2: "roles st2 = role_dict a b c (m\<lparr>signed := p1\<rparr>)" by (simp add: st2)
  from Cons.IH [OF r2 rest] obtain p where
    p: "add_key_seq w ns (Suc i) p1 = Inr p"
    and st': "st' = st2\<lparr>roles := role_dict a b c (m\<lparr>signed := p1, signed := p\<rparr>),
                 keys := generated_keys w ns (Suc i) (keys st2)\<rparr>"
    by auto
  show ?case
    by (rule exI [of _ p]) (simp add: p1 p st' st2 bind_err_def)
qed

lemma add_key_role_of:
  assumes "add_key n k p = Inr p'"
  shows "\<exists>r. role_of p n = Some r \<and>
           role_of p' = (role_of p)(n \<mapsto> r\<lparr>keyids :=
              (if key_keyid k \<in> set (keyids r) then keyids r else keyids r @ [key_keyid k])\<rparr>)"
  using assms
  by (auto simp: add_key_def role_of_def roles_of_payload_def map_of_dict_set fun_eq_iff
      split: role_body.splits option.splits)

lemma add_key_keeps:
  assumes "add_key n k p = Inr p'" and "role_of p x = Some r"
  shows "\<exists>r'. role_of p' x = Some r' \<and> threshold r' = threshold r \<and>
           set (keyids r) \<subseteq> set (keyids r')"
  using add_key_role_of [OF assms(1)] assms(2) by (cases "x = n") auto

lemma add_key_adds:
  assumes "add_key n k p = Inr p'"
  shows "\<exists>r'. role_of p' n = Some r' \<and> key_keyid k \<in> set (keyids r')"
  using add_key_role_of [OF assms] by auto

lemma add_key_seq_keeps:
  assumes "add_key_seq w ns i p = Inr p'" and "role_of p x = Some r"
  shows "\<exists>r'. role_of p' x = Some r' \<and> threshold r' = threshold r \<and>
           set (keyids r) \<subseteq> set (keyids r')"
  using assms
proof (induction ns arbitrary: i p r)
  case Nil
  then show ?case by simp
next
  case (Cons n ns)
  from Cons.prems(1) obtain p1 where
    a: "add_key n (from_securesystemslib_key (generate_ed25519_key w i)) p = Inr p1"
    and b: "add_key_seq w ns (Suc i) p1 = Inr p'"
    by (auto simp: bind_err_Inr_iff)
  from add_key_keeps [OF a Cons.prems(2)] obtain r1 where
    r1: "role_of p1 x = Some r1" "threshold r1 = threshold r" "set (keyids r) \<subseteq> set (keyids r1)"
    by blast
  from Cons.IH [OF b r1(1)] r1(2,3) show ?case by fastforce
qed

lemma add_key_seq_adds:
  assumes "add_key_seq w ns i p = Inr p'" and "x \<in> set ns"
  shows "\<exists>r'. role_of p' x = Some r' \<and> keyids r' \<noteq> []"
  using assms
proof (induction ns arbitrary: i p)
  case Nil
  then show ?case by simp
next
  case (Cons n ns)
  from Cons.prems(1) obtain p1 where
    a: "add_key n (from_securesystemslib_key (generate_ed25519_key w i)) p = Inr p1"
    and b: "add_key_seq w ns (Suc i) p1 = Inr p'"
    by (auto simp: bind_err_Inr_iff)
  show ?case
  proof (cases "x = n")
    case True
    from add_key_adds [OF a] obtain r1 where
      r1: "role_of p1 n = Some r1" "keyids r1 \<noteq> []" by fastforce
    from add_key_seq_keeps [OF b r1(1)] r1(2) True show ?thesis by fastforce
  next
    case False
    with Cons.prems(2) have "x \<in> set ns" by simp
    from Cons.IH [OF b this] show ?thesis .
  qed
qed

lemma set_role_threshold_role_of:
  assumes "set_role_threshold n t p = Inr p'"
  shows "\<exists>r. role_of p n = Some r \<and> role_of p' = (role_of p)(n \<mapsto> r\<lparr>threshold := t\<rparr>)"
  using assms
  by (auto simp: set_role_threshold_def role_of_def roles_of_payload_def map_of_dict_set fun_eq_iff
      split: role_body.splits option.splits)

lemma role_ok_I: "threshold r = 1 \<Longrightarrow> keyids r \<noteq> [] \<Longrightarrow> role_ok r"
proof -
  assume t: "threshold r = 1" and k: "keyids r \<noteq> []"
  from k have "set (keyids r) \<noteq> {}" by simp
  then have "0 < card (set (keyids r))" by (simp add: card_gt_0_iff)
  with t show "role_ok r" by (simp add: role_ok_def)
qed

lemma create_roles_dict:
  assumes "create_roles d w = Inr st"
  shows "\<exists>e0 e1 e2 e3 ts.
           st = \<lparr>roles = role_dict
                   (new_metadata ((new_targets d e0)\<lparr>body := TargetsBody ts\<rparr>))
                   (new_metadata (new_snapshot d e1))
                   (new_metadata (new_timestamp d e2))
                   (new_metadata (new_root d e3)),
                 keys = [], files = []\<rparr>"
proof -
  from create_roles_result [OF assms] obtain e0 e1 e2 e3 i1 i2 where
    st: "st = \<lparr>roles = created_roles d e0 e1 e2 e3 i1 i2, keys = [], files = []\<rparr>"
    by blast
  show ?thesis
    by (rule exI [of _ e0], rule exI [of _ e1], rule exI [of _ e2], rule exI [of _ e3],
        rule exI [of _ "dict_set target2_path i2 (dict_set target1_path i1 (d_targets d))"])
       (simp add: st created_roles_def role_dict_def new_metadata_def new_targets_def)
qed

lemma key_ops_prefix_result:
  assumes "key_ops_prefix d w k = Inr st"
  shows "\<exists>a b c e3 p1 p2 p3.
           add_key_seq w (take k top_level_names) 0 (new_root d e3) = Inr p1 \<and>
           (if 5 \<le> k then add_key ''root'' (from_securesystemslib_key (generate_ed25519_key w 4)) p1
            else Inr p1) = Inr p2 \<and>
           (if 6 \<le> k then set_role_threshold ''root'' 1 p2 else Inr p2) = Inr p3 \<and>
           st = \<lparr>roles = role_dict a b c \<lparr>signed = p3, signatures = []\<rparr>,
                 keys = generated_keys w (take k top_level_names) 0 [], files = []\<rparr> \<and>
           signatures a = [] \<and> signatures b = [] \<and> signatures c = [] \<and>
           role_type (body (signed a)) = ''targets'' \<and>
           role_type (body (signed b)) = ''snapshot'' \<and>
           role_type (body (signed c)) = ''timestamp''"
proof -
  from assms obtain st0 st1 st2 where
    s0: "create_roles d w = Inr st0"
    and s1: "add_keys w (take k top_level_names) 0 st0 = Inr st1"
    and s2: "(if 5 \<le> k then add_another_root_key w st1 else Inr st1) = Inr st2"
    and s3: "(if 6 \<le> k then set_root_threshold st2 else Inr st2) = Inr st"
    unfolding key_ops_prefix_def bind_err_Inr_iff by blast
  from create_roles_dict [OF s0] obtain e0 e1 e2 e3 ts where
    st0: "st0 = \<lparr>roles = role_dict
                   (new_metadata ((new_targets d e0)\<lparr>body := TargetsBody ts\<rparr>))
                   (new_metadata (new_snapshot d e1))
                   (new_metadata (new_timestamp d e2))
                   (new_metadata (new_root d e3)),
                 keys = [], files = []\<rparr>"
    by blast
  let ?a = "new_metadata ((new_targets d e0)\<lparr>body := TargetsBody ts\<rparr>)"
  let ?b = "new_metadata (new_snapshot d e1)"
  let ?c = "new_metadata (new_timestamp d e2)"
  let ?m = "new_metadata (new_root d e3)"
  have r0: "roles st0 = role_dict ?a ?b ?c ?m" by (simp add: st0)
  from add_keys_result [OF r0 s1] obtain p1 where
    p1: "add_key_seq w (take k top_level_names) 0 (signed ?m) = Inr p1"
    and st1: "st1 = st0\<lparr>roles := role_dict ?a ?b ?c (?m\<lparr>signed := p1\<rparr>),
                 keys := generated_keys w (take k top_level_names) 0 (keys st0)\<rparr>"
    by blast
  have r1: "roles st1 = role_dict ?a ?b ?c (?m\<lparr>signed := p1\<rparr>)" by (simp add: st1)
  have "\<exists>p2. (if 5 \<le> k then add_key ''root'' (from_securesystemslib_key (generate_ed25519_key w 4)) p1
            else Inr p1) = Inr p2 \<and> st2 = st1\<lparr>roles := role_dict ?a ?b ?c (?m\<lparr>signed := p2\<rparr>)\<rparr>"
  proof (cases "5 \<le> k")
    case True
    with s2 have "update_signed ''root''
        (add_key ''root'' (from_securesystemslib_key (generate_ed25519_key w 4))) st1 = Inr st2"
      by (simp add: add_another_root_key_def Let_def)
    from update_signed_root [OF r1 this] True show ?thesis by auto
  next
    case False
    with s2 r1 show ?thesis by auto
  qed
  then obtain p2 where
    p2: "(if 5 \<le> k then add_key ''root'' (from_securesystemslib_key (generate_ed25519_key w 4)) p1
            else Inr p1) = Inr p2"
    and st2: "st2 = st1\<lparr>roles := role_dict ?a ?b ?c (?m\<lparr>signed := p2\<rparr>)\<rparr>"
    by blast
  have r2: "roles st2 = role_dict ?a ?b ?c (?m\<lparr>signed := p2\<rparr>)" by (simp add: st2)
  have "\<exists>p3. (if 6 \<le> k then set_role_threshold ''root'' 1 p2 else Inr p2) = Inr p3 \<and>
          st = st2\<lparr>roles := role_dict ?a ?b ?c (?m\<lparr>signed := p3\<rparr>)\<rparr>"
  proof (cases "6 \<le> k")
    case True
    with s3 have "update_signed ''root'' (set_role_threshold ''root'' 1) st2 = Inr st"
      by (simp add: set_root_threshold_def)
    from update_signed_root [OF r2 this] True show ?thesis by auto
  next
    case False
    with s3 r2 show ?thesis by auto
  qed
  then obtain p3 where
    p3: "(if 6 \<le> k then set_role_threshold ''root'' 1 p2 else Inr p2) = Inr p3"
    and st: "st = st2\<lparr>roles := role_dict ?a ?b ?c (?m\<lparr>signed := p3\<rparr>)\<rparr>"
    by blast
  have p1': "add_key_seq w (take k top_level_names) 0 (new_root d e3) = Inr p1"
    using p1 by (simp add: new_metadata_def)
  have fin: "st = \<lparr>roles = role_dict ?a ?b ?c \<lparr>signed = p3, signatures = []\<rparr>,
                 keys = generated_keys w (take k top_level_names) 0 [], files = []\<rparr>"
    by (simp add: st st2 st1 st0 new_metadata_def)
  show ?thesis
    apply (rule exI [of _ ?a], rule exI [of _ ?b], rule exI [of _ ?c], rule exI [of _ e3])
    apply (rule exI [of _ p1], rule exI [of _ p2], rule exI [of _ p3])
    apply (intro conjI)
    apply (rule p1')
    apply (rule p2)
    apply (rule p3)
    apply (rule fin)
    apply (simp_all add: new_metadata_def new_targets_def new_snapshot_def new_timestamp_def)
    done
qed

lemma add_key_dom:
  assumes "add_key n k p = Inr p'" and "role_of p' x = Some r'"
  shows "\<exists>r. role_of p x = Some r"
  using add_key_role_of [OF assms(1)] assms(2) by (cases "x = n") auto

lemma add_key_seq_good:
  assumes "add_key_seq w ns i p = Inr p'" and "x \<in> set ns"
  shows "\<exists>r r'. role_of p x = Some r \<and> role_of p' x = Some r' \<and>
           threshold r' = threshold r \<and> keyids r' \<noteq> []"
  using assms
proof (induction ns arbitrary: i p)
  case Nil
  then show ?case by simp
next
  case (Cons n ns)
  from Cons.prems(1) obtain p1 where
    a: "add_key n (from_securesystemslib_key (generate_ed25519_key w i)) p = Inr p1"
    and b: "add_key_seq w ns (Suc i) p1 = Inr p'"
    by (auto simp: bind_err_Inr_iff)
  show ?case
  proof (cases "x = n")
    case True
    from add_key_role_of [OF a] obtain r where
      r: "role_of p n = Some r" by blast
    from add_key_keeps [OF a r] obtain r1 where
      r1: "role_of p1 n = Some r1" "threshold r1 = threshold r" by blast
    from add_key_adds [OF a] r1(1) have ne: "keyids r1 \<noteq> []" by fastforce
    from add_key_seq_keeps [OF b r1(1)] obtain r' where
      "role_of p' n = Some r'" "threshold r' = threshold r1" "set (keyids r1) \<subseteq> set (keyids r')"
      by blast
    with r r1 ne True show ?thesis by fastforce
  next
    case False
    with Cons.prems(2) have "x \<in> set ns" by simp
    from Cons.IH [OF b this] obtain r1 r' where
      r1: "role_of p1 x = Some r1" and r': "role_of p' x = Some r'"
      "threshold r' = threshold r1" "keyids r' \<noteq> []" by blast
    from add_key_dom [OF a r1] obtain r where r: "role_of p x = Some r" by blast
    from add_key_keeps [OF a r] r1 have "threshold r1 = threshold r" by auto
    with r r' show ?thesis by simp
  qed
qed

lemma set_role_threshold_one_keeps:
  assumes "set_role_threshold n 1 p = Inr p'" and "role_of p x = Some r"
    and "threshold r = 1" and "keyids r \<noteq> []"
  shows "\<exists>r'. role_of p' x = Some r' \<and> threshold r' = 1 \<and> keyids r' \<noteq> []"
  using set_role_threshold_role_of [OF assms(1)] assms(2,3,4) by (cases "x = n") auto

lemma root_roles_of_role_dict:
  "roles st = role_dict a b c m \<Longrightarrow> map_of (root_roles_of st) x = role_of (signed m) x"
  by (simp add: root_roles_of_def role_dict_def role_of_def roles_of_payload_def)

lemma role_of_new_root: "role_of (new_root d e) x = map_of (d_root_roles d) x"
  by (simp add: role_of_def roles_of_payload_def new_root_def)

lemma key_ops_toy: "\<not> isl (key_ops_prefix fresh_defaults toy_world 6)"
  by code_simp

text \<open>
  With payload defaults in which every top-level role starts with threshold 1 and no
  key, the state after the first addition (the key of \<open>targets\<close>) has a \<open>snapshot\<close>
  role with threshold 1 and no key: the bound \<open>threshold \<le> |keyids|\<close> does not hold
  for every role after every operation of the key phase.
\<close>

lemma key_ops_1_toy: "\<not> isl (key_ops_prefix fresh_defaults toy_world 1)"
  by code_simp

lemma key_ops_1_snapshot:
  "map_of (root_roles_of (projr (key_ops_prefix fresh_defaults toy_world 1))) ''snapshot'' = Some fresh_role"
  by code_simp

theorem snapshot_role_has_no_key_after_first_addition:
  "\<exists>st r. key_ops_prefix fresh_defaults toy_world 1 = Inr st \<and>
     map_of (root_roles_of st) ''snapshot'' = Some r \<and>
     keyids r = [] \<and> threshold r = 1 \<and> \<not> role_ok r"
  apply (rule exI [of _ "projr (key_ops_prefix fresh_defaults toy_world 1)"])
  apply (rule exI [of _ fresh_role])
  using key_ops_1_toy key_ops_1_snapshot
  apply (simp add: fresh_role_def role_ok_def)
  done

lemma named_roles_ok_after_prefix:
  assumes "key_ops_prefix d w k = Inr st"
    and "\<forall>n \<in> set top_level_names. \<forall>r. map_of (d_root_roles d) n = Some r \<longrightarrow> threshold r = 1"
  shows "\<forall>n \<in> set (take k top_level_names).
           \<exists>r. map_of (root_roles_of st) n = Some r \<and> role_ok r"
proof
  fix n assume n: "n \<in> set (take k top_level_names)"
  then have n': "n \<in> set top_level_names" by (rule in_set_takeD)
  from key_ops_prefix_result [OF assms(1)] obtain a b c e3 p1 p2 p3 where
    p1: "add_key_seq w (take k top_level_names) 0 (new_root d e3) = Inr p1"
    and p2: "(if 5 \<le> k then add_key ''root'' (from_securesystemslib_key (generate_ed25519_key w 4)) p1
            else Inr p1) = Inr p2"
    and p3: "(if 6 \<le> k then set_role_threshold ''root'' 1 p2 else Inr p2) = Inr p3"
    and st: "st = \<lparr>roles = role_dict a b c \<lparr>signed = p3, signatures = []\<rparr>,
                 keys = generated_keys w (take k top_level_names) 0 [], files = []\<rparr>"
    by blast
  from add_key_seq_good [OF p1 n] obtain r0 r1 where
    r0: "role_of (new_root d e3) n = Some r0" and r1: "role_of p1 n = Some r1"
    and t1: "threshold r1 = threshold r0" and k1: "keyids r1 \<noteq> []" by blast
  from r0 assms(2) n' have "threshold r0 = 1" by (simp add: role_of_new_root)
  with t1 have t1': "threshold r1 = 1" by simp
  have "\<exists>r2. role_of p2 n = Some r2 \<and> threshold r2 = 1 \<and> keyids r2 \<noteq> []"
  proof (cases "5 \<le> k")
    case True
    with p2 have "add_key ''root'' (from_securesystemslib_key (generate_ed25519_key w 4)) p1 = Inr p2"
      by simp
    from add_key_keeps [OF this r1] t1' k1 show ?thesis by fastforce
  next
    case False
    with p2 r1 t1' k1 show ?thesis by simp
  qed
  then obtain r2 where r2: "role_of p2 n = Some r2" "threshold r2 = 1" "keyids r2 \<noteq> []"
    by blast
  have "\<exists>r3. role_of p3 n = Some r3 \<and> threshold r3 = 1 \<and> keyids r3 \<noteq> []"
  proof (cases "6 \<le> k")
    case True
    with p3 have "set_role_threshold ''root'' 1 p2 = Inr p3" by simp
    from set_role_threshold_one_keeps [OF this r2] show ?thesis .
  next
    case False
    with p3 r2 show ?thesis by simp
  qed
  then obtain r3 where r3: "role_of p3 n = Some r3" "threshold r3 = 1" "keyids r3 \<noteq> []"
    by blast
  have "map_of (root_roles_of st) n = role_of p3 n"
    using root_roles_of_role_dict [of st a b c "\<lparr>signed = p3, signatures = []\<rparr>" n]
    by (simp add: st)
  with r3 role_ok_I [OF r3(2,3)] show "\<exists>r. map_of (root_roles_of st) n = Some r \<and> role_ok r"
    by simp
qed

lemma update_signed_root_ok:
  assumes "roles st = role_dict a b c m" and "f (signed m) = Inr p"
  shows "update_signed ''root'' f st = Inr (st\<lparr>roles := role_dict a b c (m\<lparr>signed := p\<rparr>)\<rparr>)"
  using assms by (simp add: update_signed_def dict_get_def role_dict_def bind_err_def)

lemma add_key_succeeds:
  assumes "role_of p n = Some r"
  shows "\<exists>p'. add_key n k p = Inr p'"
  using assms
  by (auto simp: add_key_def role_of_def roles_of_payload_def split: role_body.splits)

lemma set_role_threshold_succeeds:
  assumes "role_of p n = Some r"
  shows "\<exists>p'. set_role_threshold n t p = Inr p'"
  using assms
  by (auto simp: set_role_threshold_def role_of_def roles_of_payload_def split: role_body.splits)

lemma add_key_seq_succeeds:
  assumes "\<forall>n \<in> set ns. \<exists>r. role_of p n = Some r"
  shows "\<exists>p'. add_key_seq w ns i p = Inr p'"
  using assms
proof (induction ns arbitrary: i p)
  case Nil
  then show ?case by simp
next
  case (Cons n ns)
  from Cons.prems obtain r where "role_of p n = Some r" by auto
  from add_key_succeeds [OF this] obtain p1 where
    a: "add_key n (from_securesystemslib_key (generate_ed25519_key w i)) p = Inr p1" by blast
  have "\<forall>x \<in> set ns. \<exists>r. role_of p1 x = Some r"
  proof
    fix x assume "x \<in> set ns"
    with Cons.prems obtain rx where "role_of p x = Some rx" by auto
    from add_key_keeps [OF a this] show "\<exists>r. role_of p1 x = Some r" by blast
  qed
  from Cons.IH [OF this] obtain p' where "add_key_seq w ns (Suc i) p1 = Inr p'" by blast
  with a show ?case by (simp add: bind_err_def)
qed

lemma add_keys_succeeds:
  assumes "roles st = role_dict a b c m" and "add_key_seq w ns i (signed m) = Inr p"
  shows "\<exists>st'. add_keys w ns i st = Inr st'"
  using assms
proof (induction ns arbitrary: i st m)
  case Nil
  then show ?case by simp
next
  case (Cons n ns)
  let ?st1 = "st\<lparr>keys := dict_set n (generate_ed25519_key w i) (keys st)\<rparr>"
  from Cons.prems(2) obtain p1 where
    a: "add_key n (from_securesystemslib_key (generate_ed25519_key w i)) (signed m) = Inr p1"
    and b: "add_key_seq w ns (Suc i) p1 = Inr p"
    by (auto simp: bind_err_Inr_iff)
  have r1: "roles ?st1 = role_dict a b c m" using Cons.prems(1) by simp
  note u = update_signed_root_ok
    [where f = "add_key n (from_securesystemslib_key (generate_ed25519_key w i))", OF r1 a]
  let ?st2 = "?st1\<lparr>roles := role_dict a b c (m\<lparr>signed := p1\<rparr>)\<rparr>"
  have r2: "roles ?st2 = role_dict a b c (m\<lparr>signed := p1\<rparr>)" by simp
  have b': "add_key_seq w ns (Suc i) (signed (m\<lparr>signed := p1\<rparr>)) = Inr p" using b by simp
  from Cons.IH [OF r2 b'] obtain st' where "add_keys w ns (Suc i) ?st2 = Inr st'" by blast
  with u show ?case
    by (simp add: Let_def dict_get_def map_of_dict_set bind_err_def)
qed

lemma add_key_other:
  assumes "add_key n k p = Inr p'" and "x \<noteq> n"
  shows "role_of p' x = role_of p x"
  using add_key_role_of [OF assms(1)] assms(2) by auto

lemma set_role_threshold_other:
  assumes "set_role_threshold n t p = Inr p'" and "x \<noteq> n"
  shows "role_of p' x = role_of p x"
  using set_role_threshold_role_of [OF assms(1)] assms(2) by auto

lemma add_key_seq_other:
  assumes "add_key_seq w ns i p = Inr p'" and "x \<notin> set ns"
  shows "role_of p' x = role_of p x"
  using assms
proof (induction ns arbitrary: i p)
  case Nil
  then show ?case by simp
next
  case (Cons n ns)
  from Cons.prems(1) obtain p1 where
    a: "add_key n (from_securesystemslib_key (generate_ed25519_key w i)) p = Inr p1"
    and b: "add_key_seq w ns (Suc i) p1 = Inr p'"
    by (auto simp: bind_err_Inr_iff)
  from Cons.prems(2) have "x \<noteq> n" "x \<notin> set ns" by auto
  from Cons.IH [OF b this(2)] add_key_other [OF a this(1)] show ?case by simp
qed

lemma key_ops_prefix_succeeds:
  assumes "create_roles d w = Inr st0"
    and "\<forall>n \<in> set top_level_names. \<exists>r. map_of (d_root_roles d) n = Some r"
  shows "\<exists>st. key_ops_prefix d w k = Inr st"
proof -
  from create_roles_dict [OF assms(1)] obtain e0 e1 e2 e3 ts where
    st0: "st0 = \<lparr>roles = role_dict
                   (new_metadata ((new_targets d e0)\<lparr>body := TargetsBody ts\<rparr>))
                   (new_metadata (new_snapshot d e1))
                   (new_metadata (new_timestamp d e2))
                   (new_metadata (new_root d e3)),
                 keys = [], files = []\<rparr>"
    by blast
  let ?a = "new_metadata ((new_targets d e0)\<lparr>body := TargetsBody ts\<rparr>)"
  let ?b = "new_metadata (new_snapshot d e1)"
  let ?c = "new_metadata (new_timestamp d e2)"
  let ?m = "new_metadata (new_root d e3)"
  have r0: "roles st0 = role_dict ?a ?b ?c ?m" by (simp add: st0)
  have listed: "\<forall>n \<in> set top_level_names. \<exists>r. role_of (signed ?m) n = Some r"
    using assms(2) by (simp add: role_of_new_root new_metadata_def)
  then have "\<forall>n \<in> set (take k top_level_names). \<exists>r. role_of (signed ?m) n = Some r"
    by (meson in_set_takeD)
  from add_key_seq_succeeds [OF this] obtain p1 where
    p1: "add_key_seq w (take k top_level_names) 0 (signed ?m) = Inr p1" by blast
  from add_keys_succeeds [OF r0 p1] obtain st1 where
    s1: "add_keys w (take k top_level_names) 0 st0 = Inr st1" by blast
  from add_keys_result [OF r0 s1] p1 have
    r1: "roles st1 = role_dict ?a ?b ?c (?m\<lparr>signed := p1\<rparr>)" by auto
  from listed obtain rr where "role_of (signed ?m) ''root'' = Some rr"
    by (auto simp: top_level_names_def)
  from add_key_seq_keeps [OF p1 this] obtain rr1 where
    rr1: "role_of p1 ''root'' = Some rr1" by blast
  have "\<exists>st2 p2. (if 5 \<le> k then add_another_root_key w st1 else Inr st1) = Inr st2 \<and>
          roles st2 = role_dict ?a ?b ?c (?m\<lparr>signed := p2\<rparr>) \<and>
          (\<exists>r. role_of p2 ''root'' = Some r)"
  proof (cases "5 \<le> k")
    case True
    from add_key_succeeds [OF rr1] obtain p2 where
      a: "add_key ''root'' (from_securesystemslib_key (generate_ed25519_key w 4)) p1 = Inr p2"
      by blast
    have a': "add_key ''root'' (from_securesystemslib_key (generate_ed25519_key w 4))
                (signed (?m\<lparr>signed := p1\<rparr>)) = Inr p2"
      using a by simp
    from add_key_keeps [OF a rr1] have "\<exists>r. role_of p2 ''root'' = Some r" by blast
    with update_signed_root_ok
      [where f = "add_key ''root'' (from_securesystemslib_key (generate_ed25519_key w 4))", OF r1 a']
      True show ?thesis
      by (auto simp: add_another_root_key_def Let_def)
  next
    case False
    with r1 rr1 show ?thesis by auto
  qed
  then obtain st2 p2 r2 where
    s2: "(if 5 \<le> k then add_another_root_key w st1 else Inr st1) = Inr st2"
    and r2: "roles st2 = role_dict ?a ?b ?c (?m\<lparr>signed := p2\<rparr>)"
    and rr2: "role_of p2 ''root'' = Some r2"
    by blast
  have "\<exists>st. (if 6 \<le> k then set_root_threshold st2 else Inr st2) = Inr st"
  proof (cases "6 \<le> k")
    case True
    from set_role_threshold_succeeds [OF rr2] obtain p3 where
      "set_role_threshold ''root'' 1 p2 = Inr p3" by blast
    then have "set_role_threshold ''root'' 1 (signed (?m\<lparr>signed := p2\<rparr>)) = Inr p3" by simp
    from update_signed_root_ok [where f = "set_role_threshold ''root'' 1", OF r2 this] True
    show ?thesis
      by (simp add: set_root_threshold_def)
  next
    case False
    then show ?thesis by simp
  qed
  then obtain st where
    s3: "(if 6 \<le> k then set_root_threshold st2 else Inr st2) = Inr st" by blast
  have "key_ops_prefix d w k = Inr st"
    unfolding key_ops_prefix_def using assms(1) s1 s2 s3 by (simp add: bind_err_def)
  then show ?thesis by blast
qed

lemma untouched_roles_after_prefix:
  assumes "key_ops_prefix d w k = Inr st" and "n \<notin> set (take k top_level_names)"
  shows "map_of (root_roles_of st) n = map_of (d_root_roles d) n"
proof -
  from key_ops_prefix_result [OF assms(1)] obtain a b c e3 p1 p2 p3 where
    p1: "add_key_seq w (take k top_level_names) 0 (new_root d e3) = Inr p1"
    and p2: "(if 5 \<le> k then add_key ''root'' (from_securesystemslib_key (generate_ed25519_key w 4)) p1
            else Inr p1) = Inr p2"
    and p3: "(if 6 \<le> k then set_role_threshold ''root'' 1 p2 else Inr p2) = Inr p3"
    and st: "st = \<lparr>roles = role_dict a b c \<lparr>signed = p3, signatures = []\<rparr>,
                 keys = generated_keys w (take k top_level_names) 0 [], files = []\<rparr>"
    by blast
  have nr: "4 \<le> k \<Longrightarrow> n \<noteq> ''root''"
    using assms(2) by (auto simp: top_level_names_def)
  have e1: "role_of p1 n = role_of (new_root d e3) n"
    by (rule add_key_seq_other [OF p1 assms(2)])
  have e2: "role_of p2 n = role_of p1 n"
  proof (cases "5 \<le> k")
    case True
    with p2 have "add_key ''root'' (from_securesystemslib_key (generate_ed25519_key w 4)) p1 = Inr p2"
      by simp
    from add_key_other [OF this] nr True show ?thesis by simp
  next
    case False
    with p2 show ?thesis by simp
  qed
  have e3: "role_of p3 n = role_of p2 n"
  proof (cases "6 \<le> k")
    case True
    with p3 have "set_role_threshold ''root'' 1 p2 = Inr p3" by simp
    from set_role_threshold_other [OF this] nr True show ?thesis by simp
  next
    case False
    with p3 show ?thesis by simp
  qed
  have "map_of (root_roles_of st) n = role_of p3 n"
    using root_roles_of_role_dict [of st a b c "\<lparr>signed = p3, signatures = []\<rparr>" n]
    by (simp add: st)
  with e1 e2 e3 show ?thesis by (simp add: role_of_new_root)
qed

text \<open>
  C3. Let the payload defaults list the four top-level roles in the root payload,
  each with threshold 1, and let the four payloads have been created. Then each of
  the six operations of the key phase (the four additions of the loop, the addition
  of the other root key, the assignment of threshold 1 to the root role) succeeds:
  none is rejected. After the first \<open>k\<close> of them, every role that has received its key
  so far satisfies \<open>1 \<le> threshold \<le> |keyids|\<close>; from the fourth operation on these are
  all four top-level roles. Every other role of the root payload is then still as the
  defaults left it.
\<close>

theorem key_phase_succeeds_and_keeps_keyed_roles_ok:
  assumes "create_roles d w = Inr st0"
    and "\<forall>n \<in> set top_level_names. \<exists>r. map_of (d_root_roles d) n = Some r \<and> threshold r = 1"
  shows "\<exists>st. key_ops_prefix d w k = Inr st \<and>
           (\<forall>n \<in> set (take k top_level_names).
              \<exists>r. map_of (root_roles_of st) n = Some r \<and> role_ok r) \<and>
           (\<forall>n. n \<notin> set (take k top_level_names) \<longrightarrow>
              map_of (root_roles_of st) n = map_of (d_root_roles d) n)"
proof -
  from assms(2) have listed: "\<forall>n \<in> set top_level_names. \<exists>r. map_of (d_root_roles d) n = Some r"
    by blast
  from assms(2) have one:
    "\<forall>n \<in> set top_level_names. \<forall>r. map_of (d_root_roles d) n = Some r \<longrightarrow> threshold r = 1"
    by fastforce
  from key_ops_prefix_succeeds [OF assms(1) listed] obtain st where
    st: "key_ops_prefix d w k = Inr st" by blast
  from named_roles_ok_after_prefix [OF st one] untouched_roles_after_prefix [OF st] st
  show ?thesis by blast
qed

lemma key_ops_2_roles:
  "map (\<lambda>(n, r). (n, keyids r, threshold r))
     (root_roles_of (projr (key_ops_prefix fresh_defaults toy_world 2))) =
   [(''root'', [], 1), (''timestamp'', [], 1), (''snapshot'', [''k1''], 1), (''targets'', [''k0''], 1)]"
  "map (\<lambda>(n, r). (n, keyids r, threshold r))
     (root_roles_of (projr (key_ops_prefix fresh_defaults toy_world 6))) =
   [(''root'', [''k3'', ''k4''], 1), (''timestamp'', [''k2''], 1), (''snapshot'', [''k1''], 1),
    (''targets'', [''k0''], 1)]"
  by code_simp+

theorem key_phase_succeeds_and_keeps_keyed_roles_ok_witness:
  "create_roles fresh_defaults toy_world = Inr (projr (create_roles fresh_defaults toy_world)) \<and>
   map (\<lambda>n. map_option threshold (map_of (d_root_roles fresh_defaults) n)) top_level_names =
     [Some 1, Some 1, Some 1, Some 1] \<and>
   key_ops_prefix fresh_defaults toy_world 2 =
     Inr (projr (key_ops_prefix fresh_defaults toy_world 2)) \<and>
   key_ops_prefix fresh_defaults toy_world 6 =
     Inr (projr (key_ops_prefix fresh_defaults toy_world 6)) \<and>
   map (\<lambda>(n, r). (n, keyids r, threshold r))
     (root_roles_of (projr (key_ops_prefix fresh_defaults toy_world 2))) =
   [(''root'', [], 1), (''timestamp'', [], 1), (''snapshot'', [''k1''], 1), (''targets'', [''k0''], 1)] \<and>
   (\<exists>r. map_of (root_roles_of (projr (key_ops_prefix fresh_defaults toy_world 2))) ''snapshot'' =
          Some r \<and> role_ok r) \<and>
   map_of (root_roles_of (projr (key_ops_prefix fresh_defaults toy_world 2))) ''timestamp'' =
     map_of (d_root_roles fresh_defaults) ''timestamp'' \<and>
   (\<exists>r. map_of (root_roles_of (projr (key_ops_prefix fresh_defaults toy_world 6))) ''root'' =
          Some r \<and> role_ok r)"
proof -
  have h: "create_roles fresh_defaults toy_world = Inr (projr (create_roles fresh_defaults toy_world))"
    using create_roles_toy by simp
  have t: "map (\<lambda>n. map_option threshold (map_of (d_root_roles fresh_defaults) n)) top_level_names =
     [Some 1, Some 1, Some 1, Some 1]"
    by (simp add: top_level_names_def fresh_defaults_def fresh_role_def)
  have d: "\<forall>n \<in> set top_level_names.
      \<exists>r. map_of (d_root_roles fresh_defaults) n = Some r \<and> threshold r = 1"
    by (simp add: top_level_names_def fresh_defaults_def fresh_role_def)
  from key_phase_succeeds_and_keeps_keyed_roles_ok [OF h d, of 2] obtain st2 where
    s2: "key_ops_prefix fresh_defaults toy_world 2 = Inr st2"
    and ok2: "\<forall>n \<in> set (take 2 top_level_names).
              \<exists>r. map_of (root_roles_of st2) n = Some r \<and> role_ok r"
    and un2: "\<forall>n. n \<notin> set (take 2 top_level_names) \<longrightarrow>
              map_of (root_roles_of st2) n = map_of (d_root_roles fresh_defaults) n"
    by blast
  from key_phase_succeeds_and_keeps_keyed_roles_ok [OF h d, of 6] obtain st6 where
    s6: "key_ops_prefix fresh_defaults toy_world 6 = Inr st6"
    and ok6: "\<forall>n \<in> set (take 6 top_level_names).
              \<exists>r. map_of (root_roles_of st6) n = Some r \<and> role_ok r"
    by blast
  have p2: "projr (key_ops_prefix fresh_defaults toy_world 2) = st2" by (simp add: s2)
  have p6: "projr (key_ops_prefix fresh_defaults toy_world 6) = st6" by (simp add: s6)
  have a: "\<exists>r. map_of (root_roles_of st2) ''snapshot'' = Some r \<and> role_ok r"
    using ok2 by (simp add: top_level_names_def)
  have b: "map_of (root_roles_of st2) ''timestamp'' =
     map_of (d_root_roles fresh_defaults) ''timestamp''"
    using un2 by (simp add: top_level_names_def)
  have c: "\<exists>r. map_of (root_roles_of st6) ''root'' = Some r \<and> role_ok r"
    using ok6 by (simp add: top_level_names_def)
  show ?thesis
    unfolding p2 p6
    using h t s2 s6 a b c key_ops_2_roles(1) [unfolded p2]
    by simp
qed

section \<open>The run as a whole\<close>

lemma generated_keys_top:
  "generated_keys w top_level_names 0 [] =
     [(''targets'', generate_ed25519_key w 0), (''snapshot'', generate_ed25519_key w 1),
      (''timestamp'', generate_ed25519_key w 2), (''root'', generate_ed25519_key w 3)]"
  by (simp add: top_level_names_def numeral_2_eq_2 numeral_3_eq_3)

lemma add_key_root_type: "add_key n k p = Inr p' \<Longrightarrow> role_type (body p') = ''root''"
  by (auto simp: add_key_def split: role_body.splits option.splits)

lemma add_key_version: "add_key n k p = Inr p' \<Longrightarrow> version p' = version p"
  by (auto simp: add_key_def split: role_body.splits option.splits)

lemma set_role_threshold_root_type:
  "set_role_threshold n t p = Inr p' \<Longrightarrow> role_type (body p') = ''root''"
  by (auto simp: set_role_threshold_def split: role_body.splits option.splits)

lemma set_role_threshold_version:
  "set_role_threshold n t p = Inr p' \<Longrightarrow> version p' = version p"
  by (auto simp: set_role_threshold_def split: role_body.splits option.splits)

lemma add_key_seq_version: "add_key_seq w ns i p = Inr p' \<Longrightarrow> version p' = version p"
proof (induction ns arbitrary: i p)
  case Nil
  then show ?case by simp
next
  case (Cons n ns)
  from Cons.prems obtain p1 where
    a: "add_key n (from_securesystemslib_key (generate_ed25519_key w i)) p = Inr p1"
    and b: "add_key_seq w ns (Suc i) p1 = Inr p'"
    by (auto simp: bind_err_Inr_iff)
  from Cons.IH [OF b] add_key_version [OF a] show ?case by simp
qed

lemma manage_keys_result:
  assumes "manage_keys d w = Inr st"
  shows "\<exists>e0 e1 e2 e3 ts p1 p2 p3.
           add_key_seq w top_level_names 0 (new_root d e3) = Inr p1 \<and>
           add_key ''root'' (from_securesystemslib_key (generate_ed25519_key w 4)) p1 = Inr p2 \<and>
           set_role_threshold ''root'' 1 p2 = Inr p3 \<and>
           st = \<lparr>roles = role_dict
                   (new_metadata ((new_targets d e0)\<lparr>body := TargetsBody ts\<rparr>))
                   (new_metadata (new_snapshot d e1))
                   (new_metadata (new_timestamp d e2))
                   (new_metadata p3),
                 keys = generated_keys w top_level_names 0 [], files = []\<rparr>"
proof -
  from assms obtain st0 st1 st2 where
    s0: "create_roles d w = Inr st0"
    and s1: "add_keys w top_level_names 0 st0 = Inr st1"
    and s2: "add_another_root_key w st1 = Inr st2"
    and s3: "set_root_threshold st2 = Inr st"
    unfolding manage_keys_def bind_err_Inr_iff by blast
  from create_roles_dict [OF s0] obtain e0 e1 e2 e3 ts where
    st0: "st0 = \<lparr>roles = role_dict
                   (new_metadata ((new_targets d e0)\<lparr>body := TargetsBody ts\<rparr>))
                   (new_metadata (new_snapshot d e1))
                   (new_metadata (new_timestamp d e2))
                   (new_metadata (new_root d e3)),
                 keys = [], files = []\<rparr>"
    by blast
  let ?a = "new_metadata ((new_targets d e0)\<lparr>body := TargetsBody ts\<rparr>)"
  let ?b = "new_metadata (new_snapshot d e1)"
  let ?c = "new_metadata (new_timestamp d e2)"
  let ?m = "new_metadata (new_root d e3)"
  have r0: "roles st0 = role_dict ?a ?b ?c ?m" by (simp add: st0)
  from add_keys_result [OF r0 s1] obtain p1 where
    p1: "add_key_seq w top_level_names 0 (signed ?m) = Inr p1"
    and st1: "st1 = st0\<lparr>roles := role_dict ?a ?b ?c (?m\<lparr>signed := p1\<rparr>),
                 keys := generated_keys w top_level_names 0 (keys st0)\<rparr>"
    by blast
  have r1: "roles st1 = role_dict ?a ?b ?c (?m\<lparr>signed := p1\<rparr>)" by (simp add: st1)
  from s2 have "update_signed ''root''
        (add_key ''root'' (from_securesystemslib_key (generate_ed25519_key w 4))) st1 = Inr st2"
    by (simp add: add_another_root_key_def Let_def)
  from update_signed_root [OF r1 this] obtain p2 where
    p2: "add_key ''root'' (from_securesystemslib_key (generate_ed25519_key w 4)) p1 = Inr p2"
    and st2: "st2 = st1\<lparr>roles := role_dict ?a ?b ?c (?m\<lparr>signed := p2\<rparr>)\<rparr>"
    by auto
  have r2: "roles st2 = role_dict ?a ?b ?c (?m\<lparr>signed := p2\<rparr>)" by (simp add: st2)
  from s3 have "update_signed ''root'' (set_role_threshold ''root'' 1) st2 = Inr st"
    by (simp add: set_root_threshold_def)
  from update_signed_root [OF r2 this] obtain p3 where
    p3: "set_role_threshold ''root'' 1 p2 = Inr p3"
    and st: "st = st2\<lparr>roles := role_dict ?a ?b ?c (?m\<lparr>signed := p3\<rparr>)\<rparr>"
    by auto
  have p1': "add_key_seq w top_level_names 0 (new_root d e3) = Inr p1"
    using p1 by (simp add: new_metadata_def)
  have fin: "st = \<lparr>roles = role_dict ?a ?b ?c (new_metadata p3),
                 keys = generated_keys w top_level_names 0 [], files = []\<rparr>"
    by (simp add: st st2 st1 st0 new_metadata_def)
  show ?thesis
    apply (rule exI [of _ e0], rule exI [of _ e1], rule exI [of _ e2], rule exI [of _ e3])
    apply (rule exI [of _ ts], rule exI [of _ p1], rule exI [of _ p2], rule exI [of _ p3])
    apply (intro conjI)
    apply (rule p1')
    apply (rule p2)
    apply (rule p3)
    apply (rule fin)
    done
qed

lemma sign_fresh:
  "sign c kp (new_metadata p) = \<lparr>signed = p, signatures = [make_signature c kp p]\<rparr>"
  by (simp add: sign_def new_metadata_def)

lemma sign_all_result:
  assumes "roles st = role_dict a b t m"
    and "keys st = [(''targets'', k0), (''snapshot'', k1), (''timestamp'', k2), (''root'', k3)]"
    and "role_type (body (signed a)) = ''targets''"
    and "role_type (body (signed b)) = ''snapshot''"
    and "role_type (body (signed t)) = ''timestamp''"
    and "role_type (body (signed m)) = ''root''"
    and "sign_all c top_level_names st = Inr st'"
  shows "st' = st\<lparr>roles := role_dict (sign c k0 a) (sign c k1 b) (sign c k2 t) (sign c k3 m)\<rparr>"
  using assms
  by (simp add: top_level_names_def bind_err_def dict_get_def role_dict_def)

lemma persist_result:
  assumes "roles st = role_dict a b t m" and "files st = []"
    and "bind_err (persist_versioned w [''root'', ''targets'', ''snapshot''] st)
           (persist_timestamp w) = Inr st'"
  shows "st' = st\<lparr>files :=
           [(path_join (mkdtemp w) (versioned_filename m), m),
            (path_join (mkdtemp w) (versioned_filename a), a),
            (path_join (mkdtemp w) (versioned_filename b), b),
            (path_join (mkdtemp w) ''timestamp.json'', t)]\<rparr>"
  using assms
  by (auto simp: bind_err_Inr_iff dict_get_def role_dict_def to_file_def persist_timestamp_def
      Let_def split: if_splits)

lemma sign_roles_result:
  assumes "sign_roles d c w = Inr st"
  shows "\<exists>e0 e1 e2 e3 ts p1 p2 p3.
           add_key_seq w top_level_names 0 (new_root d e3) = Inr p1 \<and>
           add_key ''root'' (from_securesystemslib_key (generate_ed25519_key w 4)) p1 = Inr p2 \<and>
           set_role_threshold ''root'' 1 p2 = Inr p3 \<and>
           st = \<lparr>roles = signed_roles c w ((new_targets d e0)\<lparr>body := TargetsBody ts\<rparr>)
                           (new_snapshot d e1) (new_timestamp d e2) p3,
                 keys = generated_keys w top_level_names 0 [], files = []\<rparr>"
proof -
  from assms obtain st0 where
    s0: "manage_keys d w = Inr st0" and s1: "sign_all c top_level_names st0 = Inr st"
    unfolding sign_roles_def bind_err_Inr_iff by blast
  from manage_keys_result [OF s0] obtain e0 e1 e2 e3 ts p1 p2 p3 where
    p1: "add_key_seq w top_level_names 0 (new_root d e3) = Inr p1"
    and p2: "add_key ''root'' (from_securesystemslib_key (generate_ed25519_key w 4)) p1 = Inr p2"
    and p3: "set_role_threshold ''root'' 1 p2 = Inr p3"
    and st0: "st0 = \<lparr>roles = role_dict
                   (new_metadata ((new_targets d e0)\<lparr>body := TargetsBody ts\<rparr>))
                   (new_metadata (new_snapshot d e1))
                   (new_metadata (new_timestamp d e2))
                   (new_metadata p3),
                 keys = generated_keys w top_level_names 0 [], files = []\<rparr>"
    by blast
  have r: "roles st0 = role_dict
                   (new_metadata ((new_targets d e0)\<lparr>body := TargetsBody ts\<rparr>))
                   (new_metadata (new_snapshot d e1))
                   (new_metadata (new_timestamp d e2))
                   (new_metadata p3)"
    by (simp add: st0)
  have k: "keys st0 = [(''targets'', generate_ed25519_key w 0), (''snapshot'', generate_ed25519_key w 1),
      (''timestamp'', generate_ed25519_key w 2), (''root'', generate_ed25519_key w 3)]"
    by (simp add: st0 generated_keys_top)
  have t: "role_type (body (signed (new_metadata ((new_targets d e0)\<lparr>body := TargetsBody ts\<rparr>)))) = ''targets''"
    "role_type (body (signed (new_metadata (new_snapshot d e1)))) = ''snapshot''"
    "role_type (body (signed (new_metadata (new_timestamp d e2)))) = ''timestamp''"
    "role_type (body (signed (new_metadata p3))) = ''root''"
    using set_role_threshold_root_type [OF p3]
    by (simp_all add: new_metadata_def new_snapshot_def new_timestamp_def)
  from sign_all_result [OF r k t s1]
  have "st = \<lparr>roles = signed_roles c w ((new_targets d e0)\<lparr>body := TargetsBody ts\<rparr>)
                           (new_snapshot d e1) (new_timestamp d e2) p3,
                 keys = generated_keys w top_level_names 0 [], files = []\<rparr>"
    by (simp add: st0 signed_roles_def)
  with p1 p2 p3 show ?thesis by blast
qed

lemma main_result:
  assumes "main d c w = Inr st"
  shows "\<exists>e0 e1 e2 e3 ts p1 p2 p3.
           add_key_seq w top_level_names 0 (new_root d e3) = Inr p1 \<and>
           add_key ''root'' (from_securesystemslib_key (generate_ed25519_key w 4)) p1 = Inr p2 \<and>
           set_role_threshold ''root'' 1 p2 = Inr p3 \<and>
           roles st = signed_roles c w ((new_targets d e0)\<lparr>body := TargetsBody ts\<rparr>)
                           (new_snapshot d e1) (new_timestamp d e2) p3 \<and>
           files st = written_files w (roles st)"
proof -
  from assms obtain st0 where
    s0: "sign_roles d c w = Inr st0"
    and s1: "bind_err (persist_versioned w [''root'', ''targets'', ''snapshot''] st0)
               (persist_timestamp w) = Inr st"
    unfolding main_def bind_err_Inr_iff by blast
  from sign_roles_result [OF s0] obtain e0 e1 e2 e3 ts p1 p2 p3 where
    p1: "add_key_seq w top_level_names 0 (new_root d e3) = Inr p1"
    and p2: "add_key ''root'' (from_securesystemslib_key (generate_ed25519_key w 4)) p1 = Inr p2"
    and p3: "set_role_threshold ''root'' 1 p2 = Inr p3"
    and st0: "st0 = \<lparr>roles = signed_roles c w ((new_targets d e0)\<lparr>body := TargetsBody ts\<rparr>)
                           (new_snapshot d e1) (new_timestamp d e2) p3,
                 keys = generated_keys w top_level_names 0 [], files = []\<rparr>"
    by blast
  have r: "roles st0 = role_dict (sign c (generate_ed25519_key w 0) (new_metadata ((new_targets d e0)\<lparr>body := TargetsBody ts\<rparr>)))
               (sign c (generate_ed25519_key w 1) (new_metadata (new_snapshot d e1)))
               (sign c (generate_ed25519_key w 2) (new_metadata (new_timestamp d e2)))
               (sign c (generate_ed25519_key w 3) (new_metadata p3))"
    by (simp add: st0 signed_roles_def)
  have f: "files st0 = []" by (simp add: st0)
  from persist_result [OF r f s1]
  have "roles st = signed_roles c w ((new_targets d e0)\<lparr>body := TargetsBody ts\<rparr>)
                           (new_snapshot d e1) (new_timestamp d e2) p3"
    and "files st = written_files w (roles st)"
    by (simp_all add: st0 signed_roles_def written_files_def role_dict_def)
  with p1 p2 p3 show ?thesis by blast
qed

lemma main_toy: "\<not> isl (main fresh_defaults toy_collab toy_world)"
  by code_simp

section \<open>File names\<close>

lemma str_int_examples:
  "str_int 0 = ''0''" "str_int 7 = ''7''" "str_int 12 = ''12''" "str_int 2025 = ''2025''"
  "str_int (- 3) = ''-3''" "str_int 100 = ''100''"
  by code_simp+










lemma main_toy_12: "\<not> isl (main (defaults_at_version 12) toy_collab toy_world)"
  by code_simp

lemma main_toy_12_versions:
  "map (\<lambda>(n, md). version (signed md))
     (roles (projr (main (defaults_at_version 12) toy_collab toy_world))) = [12, 12, 12, 12]"
  by code_simp

text \<open>
  C4. When the script runs to its end, the output directory holds four files, written
  in this order: the root, targets and snapshot envelopes, each under the name made
  of the version of its own payload, a dot, the name of its role and \<open>.json\<close>, and
  the timestamp envelope under the fixed name \<open>timestamp.json\<close>.
\<close>

theorem files_named_by_version_and_role:
  assumes "main d c w = Inr st"
  shows "\<exists>mt ms mts mr.
           roles st = role_dict mt ms mts mr \<and>
           files st =
             [(path_join (mkdtemp w) (str_int (version (signed mr)) @ ''.root.json''), mr),
              (path_join (mkdtemp w) (str_int (version (signed mt)) @ ''.targets.json''), mt),
              (path_join (mkdtemp w) (str_int (version (signed ms)) @ ''.snapshot.json''), ms),
              (path_join (mkdtemp w) ''timestamp.json'', mts)]"
proof -
  from main_result [OF assms] obtain e0 e1 e2 e3 ts p1 p2 p3 where
    p3: "set_role_threshold ''root'' 1 p2 = Inr p3"
    and r: "roles st = signed_roles c w ((new_targets d e0)\<lparr>body := TargetsBody ts\<rparr>)
                           (new_snapshot d e1) (new_timestamp d e2) p3"
    and f: "files st = written_files w (roles st)"
    by blast
  have t: "role_type (body p3) = ''root''" by (rule set_role_threshold_root_type [OF p3])
  show ?thesis
    apply (rule exI [of _ "sign c (generate_ed25519_key w 0) (new_metadata ((new_targets d e0)\<lparr>body := TargetsBody ts\<rparr>))"])
    apply (rule exI [of _ "sign c (generate_ed25519_key w 1) (new_metadata (new_snapshot d e1))"])
    apply (rule exI [of _ "sign c (generate_ed25519_key w 2) (new_metadata (new_timestamp d e2))"])
    apply (rule exI [of _ "sign c (generate_ed25519_key w 3) (new_metadata p3)"])
    apply (simp add: f r signed_roles_def written_files_def role_dict_def versioned_filename_def
        sign_def new_metadata_def new_snapshot_def t)
    done
qed

theorem files_named_by_version_and_role_witness:
  "main (defaults_at_version 12) toy_collab toy_world =
     Inr (projr (main (defaults_at_version 12) toy_collab toy_world)) \<and>
   map (\<lambda>(n, md). version (signed md))
     (roles (projr (main (defaults_at_version 12) toy_collab toy_world))) = [12, 12, 12, 12] \<and>
   map fst (files (projr (main (defaults_at_version 12) toy_collab toy_world))) =
     [''/repo/tmpx/12.root.json'', ''/repo/tmpx/12.targets.json'',
      ''/repo/tmpx/12.snapshot.json'', ''/repo/tmpx/timestamp.json'']"
proof -
  let ?st = "projr (main (defaults_at_version 12) toy_collab toy_world)"
  have h: "main (defaults_at_version 12) toy_collab toy_world = Inr ?st"
    using main_toy_12 by simp
  note v = main_toy_12_versions
  have s: "str_int 12 = ''12''" by (rule str_int_examples(3))
  have m: "mkdtemp toy_world = ''/repo/tmpx''" by (simp add: toy_world_def)
  from files_named_by_version_and_role [OF h] obtain mt ms mts mr where
    r: "roles ?st = role_dict mt ms mts mr"
    and f: "files ?st =
             [(path_join (mkdtemp toy_world) (str_int (version (signed mr)) @ ''.root.json''), mr),
              (path_join (mkdtemp toy_world) (str_int (version (signed mt)) @ ''.targets.json''), mt),
              (path_join (mkdtemp toy_world) (str_int (version (signed ms)) @ ''.snapshot.json''), ms),
              (path_join (mkdtemp toy_world) ''timestamp.json'', mts)]"
    by blast
  from v r have "version (signed mt) = 12" "version (signed ms) = 12" "version (signed mr) = 12"
    by (simp_all add: role_dict_def)
  with f s m h v show ?thesis by (simp add: path_join_def)
qed

section \<open>Consistency of the files written\<close>

lemma root_body_of_type:
  "role_type (body p) = ''root'' \<Longrightarrow> \<exists>cs ks rs. body p = RootBody cs ks rs"
  by (cases "body p") simp_all

lemma consistent_prefixes:
  assumes "body (signed mr) = RootBody cs ks rs"
    and "body (signed mt) = TargetsBody ts" and "version (signed mt) = v"
    and "body (signed ms) = SnapshotBody meta" and "map_of meta (meta_key ''targets'') = Some v"
    and "version (signed ms) = v'" and "body (signed mts) = TimestampBody v'"
    and "n \<le> 4"
  shows "storage_consistent (take n [(a, mr), (b, mt), (c, ms), (e, mts)])"
proof -
  from assms(8) have "n = 0 \<or> n = 1 \<or> n = 2 \<or> n = 3 \<or> n = 4" by arith
  then show ?thesis
    using assms(1-7)
    by (elim disjE)
      (simp_all add: storage_consistent_def latest_version_def persisted_versions_def)
qed

text \<open>
  C6. The script never sets a version or a reference itself: the files it writes
  carry what the constructors of the library put there. With those defaults, on
  every run that reaches its end, there are four files, and after each of the four
  writes the files written so far are consistent: every stored snapshot lists the
  targets role at the latest stored targets version, and every stored timestamp
  refers to the latest stored snapshot version.
\<close>

theorem written_files_consistent:
  assumes "main fresh_defaults c w = Inr st"
  shows "length (files st) = 4 \<and>
         (\<forall>n \<le> length (files st). storage_consistent (take n (files st)))"
proof -
  let ?d = fresh_defaults
  from main_result [OF assms(1)] obtain e0 e1 e2 e3 ts p1 p2 p3 where
    p3: "set_role_threshold ''root'' 1 p2 = Inr p3"
    and r: "roles st = signed_roles c w ((new_targets ?d e0)\<lparr>body := TargetsBody ts\<rparr>)
                           (new_snapshot ?d e1) (new_timestamp ?d e2) p3"
    and f: "files st = written_files w (roles st)"
    by blast
  from root_body_of_type [OF set_role_threshold_root_type [OF p3]] obtain cs ks rs where
    b: "body p3 = RootBody cs ks rs" by blast
  let ?mt = "sign c (generate_ed25519_key w 0) (new_metadata ((new_targets ?d e0)\<lparr>body := TargetsBody ts\<rparr>))"
  let ?ms = "sign c (generate_ed25519_key w 1) (new_metadata (new_snapshot ?d e1))"
  let ?mts = "sign c (generate_ed25519_key w 2) (new_metadata (new_timestamp ?d e2))"
  let ?mr = "sign c (generate_ed25519_key w 3) (new_metadata p3)"
  have fs: "files st =
     [(path_join (mkdtemp w) (versioned_filename ?mr), ?mr),
      (path_join (mkdtemp w) (versioned_filename ?mt), ?mt),
      (path_join (mkdtemp w) (versioned_filename ?ms), ?ms),
      (path_join (mkdtemp w) ''timestamp.json'', ?mts)]"
    by (simp add: f r signed_roles_def written_files_def role_dict_def)
  have b1: "body (signed ?mr) = RootBody cs ks rs"
    by (simp add: sign_def new_metadata_def b)
  have b2: "body (signed ?mt) = TargetsBody ts" "version (signed ?mt) = 1"
    by (simp_all add: sign_def new_metadata_def new_targets_def fresh_defaults_def)
  have b3: "body (signed ?ms) = SnapshotBody [(''targets.json'', 1)]" "version (signed ?ms) = 1"
    by (simp_all add: sign_def new_metadata_def new_snapshot_def fresh_defaults_def)
  have b4: "body (signed ?mts) = TimestampBody 1"
    by (simp add: sign_def new_metadata_def new_timestamp_def fresh_defaults_def)
  have m: "map_of [(''targets.json'', 1 :: int)] (meta_key ''targets'') = Some 1"
    by (simp add: meta_key_def)
  have len: "length (files st) = 4" by (simp add: fs)
  have "\<forall>n \<le> length (files st). storage_consistent (take n (files st))"
    unfolding len
  proof (intro allI impI)
    fix n :: nat assume "n \<le> 4"
    from consistent_prefixes [OF b1 b2(1) b2(2) b3(1) m b3(2) b4 this]
    show "storage_consistent (take n (files st))" unfolding fs .
  qed
  with len show ?thesis by simp
qed

theorem written_files_consistent_witness:
  "main fresh_defaults toy_collab toy_world =
     Inr (projr (main fresh_defaults toy_collab toy_world)) \<and>
   length (files (projr (main fresh_defaults toy_collab toy_world))) = 4 \<and>
   storage_consistent (take 3 (files (projr (main fresh_defaults toy_collab toy_world)))) \<and>
   storage_consistent (files (projr (main fresh_defaults toy_collab toy_world)))"
proof -
  have h: "main fresh_defaults toy_collab toy_world =
     Inr (projr (main fresh_defaults toy_collab toy_world))"
    using main_toy by simp
  from written_files_consistent [OF h]
  have len: "length (files (projr (main fresh_defaults toy_collab toy_world))) = 4"
    and all: "\<And>n. n \<le> 4 \<Longrightarrow>
      storage_consistent (take n (files (projr (main fresh_defaults toy_collab toy_world))))"
    by simp_all
  from all [of 3] all [of 4] len h show ?thesis by simp
qed

section \<open>Signatures\<close>

lemma add_key_key_of:
  assumes "add_key n k p = Inr p'"
  shows "key_of p' x =
           (case key_of p x of Some k' \<Rightarrow> Some k'
            | None \<Rightarrow> if x = key_keyid k then Some k else None)"
proof -
  from assms obtain cs ks rs r where
    b: "body p = RootBody cs ks rs" and r: "map_of rs n = Some r"
    and p': "keys_of_payload p' =
      (if key_keyid k \<in> fst ` set ks then ks else ks @ [(key_keyid k, k)])"
    by (auto simp: add_key_def keys_of_payload_def split: role_body.splits option.splits)
  have ks: "keys_of_payload p = ks" by (simp add: keys_of_payload_def b)
  show ?thesis
  proof (cases "key_keyid k \<in> fst ` set ks")
    case True
    then have "map_of ks (key_keyid k) \<noteq> None" by (simp add: map_of_eq_None_iff)
    with True show ?thesis by (auto simp: key_of_def p' ks split: option.splits)
  next
    case False
    then have "map_of ks (key_keyid k) = None" by (simp add: map_of_eq_None_iff)
    with False show ?thesis
      by (auto simp: key_of_def p' ks map_add_def split: option.splits)
  qed
qed

lemma add_key_key_absent:
  "add_key n k p = Inr p' \<Longrightarrow> key_of p x = None \<Longrightarrow> x \<noteq> key_keyid k \<Longrightarrow> key_of p' x = None"
  by (simp add: add_key_key_of)

lemma add_key_key_new:
  "add_key n k p = Inr p' \<Longrightarrow> key_of p (key_keyid k) = None \<Longrightarrow> key_of p' (key_keyid k) = Some k"
  by (simp add: add_key_key_of)

lemma add_key_key_kept:
  "add_key n k p = Inr p' \<Longrightarrow> key_of p x = Some k' \<Longrightarrow> key_of p' x = Some k'"
  by (simp add: add_key_key_of)

lemma set_role_threshold_key_of:
  "set_role_threshold n t p = Inr p' \<Longrightarrow> key_of p' = key_of p"
  by (auto simp: set_role_threshold_def key_of_def keys_of_payload_def fun_eq_iff
      split: role_body.splits option.splits)

lemma root_entry_of_payload:
  assumes "role_of (signed md) ''root'' = Some r"
  shows "root_entry md = Some (keys_of_payload (signed md), r)"
  using assms
  by (auto simp: root_entry_def role_of_def roles_of_payload_def keys_of_payload_def
      split: role_body.splits)

lemma valid_count_single:
  assumes "signatures md = [s]" and "sig_keyid s \<in> set (keyids r)"
    and "map_of ks (sig_keyid s) = Some k"
    and "crypto_verify c (key_public k) (canonical c (signed md)) (sig_bytes s)"
  shows "valid_count c ks r md = 1"
  using assms by (simp add: valid_count_def)

lemma key_phase_root_key:
  assumes p1: "add_key_seq w top_level_names 0 p0 = Inr p1"
    and p2: "add_key ''root'' (from_securesystemslib_key (generate_ed25519_key w 4)) p1 = Inr p2"
    and p3: "set_role_threshold ''root'' 1 p2 = Inr p3"
    and fresh: "key_of p0 (kp_keyid (generate_ed25519_key w 3)) = None"
    and d0: "kp_keyid (generate_ed25519_key w 3) \<noteq> kp_keyid (generate_ed25519_key w 0)"
    and d1: "kp_keyid (generate_ed25519_key w 3) \<noteq> kp_keyid (generate_ed25519_key w 1)"
    and d2: "kp_keyid (generate_ed25519_key w 3) \<noteq> kp_keyid (generate_ed25519_key w 2)"
  shows "\<exists>r. role_of p3 ''root'' = Some r \<and> threshold r = 1 \<and>
           kp_keyid (generate_ed25519_key w 3) \<in> set (keyids r) \<and>
           kp_keyid (generate_ed25519_key w 4) \<in> set (keyids r) \<and>
           key_of p3 (kp_keyid (generate_ed25519_key w 3)) =
             Some (from_securesystemslib_key (generate_ed25519_key w 3))"
proof -
  let ?g = "generate_ed25519_key w"
  let ?k = "\<lambda>i. from_securesystemslib_key (?g i)"
  have kid: "\<And>i. key_keyid (?k i) = kp_keyid (?g i)"
    by (simp add: from_securesystemslib_key_def)
  from p1 obtain pa pb pc where
    a: "add_key ''targets'' (?k 0) p0 = Inr pa"
    and b: "add_key ''snapshot'' (?k 1) pa = Inr pb"
    and c: "add_key ''timestamp'' (?k 2) pb = Inr pc"
    and e: "add_key ''root'' (?k 3) pc = Inr p1"
    by (auto simp: top_level_names_def bind_err_Inr_iff numeral_2_eq_2 numeral_3_eq_3)
  have "key_of pa (kp_keyid (?g 3)) = None"
    using add_key_key_absent [OF a fresh] d0 by (simp add: kid)
  then have "key_of pb (kp_keyid (?g 3)) = None"
    using add_key_key_absent [OF b] d1 by (simp add: kid)
  then have "key_of pc (kp_keyid (?g 3)) = None"
    using add_key_key_absent [OF c] d2 by (simp add: kid)
  then have "key_of p1 (kp_keyid (?g 3)) = Some (?k 3)"
    using add_key_key_new [OF e] by (simp add: kid)
  then have "key_of p2 (kp_keyid (?g 3)) = Some (?k 3)"
    by (rule add_key_key_kept [OF p2])
  then have k3: "key_of p3 (kp_keyid (?g 3)) = Some (?k 3)"
    by (simp add: set_role_threshold_key_of [OF p3])
  from add_key_adds [OF e] obtain r1 where
    r1: "role_of p1 ''root'' = Some r1" "kp_keyid (?g 3) \<in> set (keyids r1)"
    by (auto simp: kid)
  from add_key_keeps [OF p2 r1(1)] add_key_adds [OF p2] r1(2) obtain r2 where
    r2: "role_of p2 ''root'' = Some r2" "kp_keyid (?g 3) \<in> set (keyids r2)"
      "kp_keyid (?g 4) \<in> set (keyids r2)"
    by (auto simp: kid)
  from set_role_threshold_role_of [OF p3] r2(1)
  have "role_of p3 ''root'' = Some (r2\<lparr>threshold := 1\<rparr>)" by auto
  with r2 k3 show ?thesis by simp
qed

text \<open>
  C10. After the signing loop each of the four envelopes carries exactly one
  signature, made over its own payload with the key pair generated for its own role
  name. When the five generated key pairs have five different key identifiers, no
  signature on any envelope bears the identifier of the other root key, although
  that key is authorised for root. When moreover the identifier of the root key is
  new to the root payload and the signatures of that key verify, the root envelope
  has one valid signature, which meets the root threshold, since that threshold is 1.
\<close>

theorem each_envelope_signed_once_by_own_key:
  assumes "sign_roles d c w = Inr st"
    and "distinct [kp_keyid (generate_ed25519_key w 0), kp_keyid (generate_ed25519_key w 1),
                   kp_keyid (generate_ed25519_key w 2), kp_keyid (generate_ed25519_key w 3),
                   kp_keyid (generate_ed25519_key w 4)]"
    and "kp_keyid (generate_ed25519_key w 3) \<notin> fst ` set (d_root_keys d)"
    and "\<And>msg. crypto_verify c (kp_public (generate_ed25519_key w 3)) msg
                 (crypto_sign c (kp_private (generate_ed25519_key w 3)) msg)"
  shows "\<exists>mt ms mts mr ks r.
           roles st = role_dict mt ms mts mr \<and>
           signatures mt = [make_signature c (generate_ed25519_key w 0) (signed mt)] \<and>
           signatures ms = [make_signature c (generate_ed25519_key w 1) (signed ms)] \<and>
           signatures mts = [make_signature c (generate_ed25519_key w 2) (signed mts)] \<and>
           signatures mr = [make_signature c (generate_ed25519_key w 3) (signed mr)] \<and>
           (\<forall>md \<in> {mt, ms, mts, mr}. \<forall>s \<in> set (signatures md).
              sig_keyid s \<noteq> kp_keyid (generate_ed25519_key w 4)) \<and>
           root_entry mr = Some (ks, r) \<and>
           kp_keyid (generate_ed25519_key w 4) \<in> set (keyids r) \<and>
           threshold r = 1 \<and> valid_count c ks r mr = 1 \<and> threshold_met c ks r mr"
proof -
  let ?g = "generate_ed25519_key w"
  from sign_roles_result [OF assms(1)] obtain e0 e1 e2 e3 ts p1 p2 p3 where
    p1: "add_key_seq w top_level_names 0 (new_root d e3) = Inr p1"
    and p2: "add_key ''root'' (from_securesystemslib_key (?g 4)) p1 = Inr p2"
    and p3: "set_role_threshold ''root'' 1 p2 = Inr p3"
    and st: "st = \<lparr>roles = signed_roles c w ((new_targets d e0)\<lparr>body := TargetsBody ts\<rparr>)
                           (new_snapshot d e1) (new_timestamp d e2) p3,
                 keys = generated_keys w top_level_names 0 [], files = []\<rparr>"
    by blast
  let ?mt = "sign c (?g 0) (new_metadata ((new_targets d e0)\<lparr>body := TargetsBody ts\<rparr>))"
  let ?ms = "sign c (?g 1) (new_metadata (new_snapshot d e1))"
  let ?mts = "sign c (?g 2) (new_metadata (new_timestamp d e2))"
  let ?mr = "sign c (?g 3) (new_metadata p3)"
  have fresh: "key_of (new_root d e3) (kp_keyid (?g 3)) = None"
    using assms(3) by (simp add: key_of_def keys_of_payload_def new_root_def map_of_eq_None_iff)
  from assms(2) have d: "kp_keyid (?g 3) \<noteq> kp_keyid (?g 0)" "kp_keyid (?g 3) \<noteq> kp_keyid (?g 1)"
    "kp_keyid (?g 3) \<noteq> kp_keyid (?g 2)" by auto
  from key_phase_root_key [OF p1 p2 p3 fresh d] obtain r where
    r: "role_of p3 ''root'' = Some r" "threshold r = 1"
      "kp_keyid (?g 3) \<in> set (keyids r)" "kp_keyid (?g 4) \<in> set (keyids r)"
    and k3: "key_of p3 (kp_keyid (?g 3)) = Some (from_securesystemslib_key (?g 3))"
    by blast
  have sg: "signed ?mr = p3" by (simp add: sign_def new_metadata_def)
  have re: "root_entry ?mr = Some (keys_of_payload p3, r)"
    using root_entry_of_payload [of ?mr r] r(1) by (simp add: sg)
  have s4: "signatures ?mr = [make_signature c (?g 3) (signed ?mr)]"
    by (simp add: sign_def new_metadata_def)
  have vc: "valid_count c (keys_of_payload p3) r ?mr = 1"
  proof (rule valid_count_single [OF s4])
    show "sig_keyid (make_signature c (?g 3) (signed ?mr)) \<in> set (keyids r)"
      using r(3) by (simp add: make_signature_def)
    show "map_of (keys_of_payload p3) (sig_keyid (make_signature c (?g 3) (signed ?mr))) =
            Some (from_securesystemslib_key (?g 3))"
      using k3 by (simp add: make_signature_def key_of_def)
    show "crypto_verify c (key_public (from_securesystemslib_key (?g 3)))
            (canonical c (signed ?mr)) (sig_bytes (make_signature c (?g 3) (signed ?mr)))"
      using assms(4) by (simp add: make_signature_def from_securesystemslib_key_def)
  qed
  have tm: "threshold_met c (keys_of_payload p3) r ?mr"
    by (simp add: threshold_met_def vc r(2))
  have never: "\<forall>md \<in> {?mt, ?ms, ?mts, ?mr}. \<forall>s \<in> set (signatures md).
              sig_keyid s \<noteq> kp_keyid (?g 4)"
    using assms(2) by (auto simp: sign_def new_metadata_def make_signature_def)
  show ?thesis
    apply (rule exI [of _ ?mt], rule exI [of _ ?ms], rule exI [of _ ?mts], rule exI [of _ ?mr])
    apply (rule exI [of _ "keys_of_payload p3"], rule exI [of _ r])
    apply (intro conjI)
              apply (simp add: st signed_roles_def)
             apply (simp add: sign_def new_metadata_def)
            apply (simp add: sign_def new_metadata_def)
           apply (simp add: sign_def new_metadata_def)
          apply (rule s4)
         apply (rule never)
        apply (rule re)
       apply (rule r(4))
      apply (rule r(2))
     apply (rule vc)
    apply (rule tm)
    done
qed

lemma sign_roles_toy: "\<not> isl (sign_roles fresh_defaults toy_collab toy_world)"
  by code_simp

lemma sign_roles_toy_signatures:
  "map (\<lambda>(n, md). (n, map sig_keyid (signatures md)))
     (roles (projr (sign_roles fresh_defaults toy_collab toy_world))) =
   [(''targets'', [''k0'']), (''snapshot'', [''k1'']), (''timestamp'', [''k2'']), (''root'', [''k3''])]"
  by code_simp

theorem each_envelope_signed_once_by_own_key_witness:
  "sign_roles fresh_defaults toy_collab toy_world =
     Inr (projr (sign_roles fresh_defaults toy_collab toy_world)) \<and>
   map (\<lambda>i. kp_keyid (generate_ed25519_key toy_world i)) [0, 1, 2, 3, 4] =
     [''k0'', ''k1'', ''k2'', ''k3'', ''k4''] \<and>
   d_root_keys fresh_defaults = [] \<and>
   map (\<lambda>(n, md). (n, map sig_keyid (signatures md)))
     (roles (projr (sign_roles fresh_defaults toy_collab toy_world))) =
   [(''targets'', [''k0'']), (''snapshot'', [''k1'']), (''timestamp'', [''k2'']), (''root'', [''k3''])] \<and>
   (\<exists>mr ks r. map_of (roles (projr (sign_roles fresh_defaults toy_collab toy_world))) ''root'' = Some mr \<and>
      root_entry mr = Some (ks, r) \<and> ''k4'' \<in> set (keyids r) \<and> threshold r = 1 \<and>
      threshold_met toy_collab ks r mr)"
proof -
  have h: "sign_roles fresh_defaults toy_collab toy_world =
     Inr (projr (sign_roles fresh_defaults toy_collab toy_world))"
    using sign_roles_toy by simp
  have ids: "map (\<lambda>i. kp_keyid (generate_ed25519_key toy_world i)) [0, 1, 2, 3, 4] =
     [''k0'', ''k1'', ''k2'', ''k3'', ''k4'']"
    by (simp add: toy_world_def toy_key_pair_def)
  then have dist: "distinct [kp_keyid (generate_ed25519_key toy_world 0),
                   kp_keyid (generate_ed25519_key toy_world 1),
                   kp_keyid (generate_ed25519_key toy_world 2),
                   kp_keyid (generate_ed25519_key toy_world 3),
                   kp_keyid (generate_ed25519_key toy_world 4)]"
    by simp
  have nk: "d_root_keys fresh_defaults = []" by (simp add: fresh_defaults_def)
  then have fr: "kp_keyid (generate_ed25519_key toy_world 3) \<notin> fst ` set (d_root_keys fresh_defaults)"
    by simp
  have cr: "\<And>msg. crypto_verify toy_collab (kp_public (generate_ed25519_key toy_world 3)) msg
                 (crypto_sign toy_collab (kp_private (generate_ed25519_key toy_world 3)) msg)"
    by (simp add: toy_collab_def toy_world_def toy_key_pair_def)
  from each_envelope_signed_once_by_own_key [OF h dist fr cr] obtain mt ms mts mr ks r where
    e: "roles (projr (sign_roles fresh_defaults toy_collab toy_world)) = role_dict mt ms mts mr"
      "root_entry mr = Some (ks, r)"
      "kp_keyid (generate_ed25519_key toy_world 4) \<in> set (keyids r)"
      "threshold r = 1" "threshold_met toy_collab ks r mr"
    by blast
  from ids have k4: "kp_keyid (generate_ed25519_key toy_world 4) = ''k4''" by simp
  have "\<exists>mr ks r. map_of (roles (projr (sign_roles fresh_defaults toy_collab toy_world))) ''root'' = Some mr \<and>
      root_entry mr = Some (ks, r) \<and> ''k4'' \<in> set (keyids r) \<and> threshold r = 1 \<and>
      threshold_met toy_collab ks r mr"
    apply (rule exI [of _ mr], rule exI [of _ ks], rule exI [of _ r])
    using e k4 apply (simp add: role_dict_def)
    done
  with h ids nk sign_roles_toy_signatures show ?thesis by blast
qed

section \<open>The verifier\<close>

lemma valid_keyids_inv:
  "distinct seen \<Longrightarrow>
   distinct (valid_keyids c ks r msg ss seen) \<and>
   set (valid_keyids c ks r msg ss seen) =
     set seen \<union> {kid \<in> set (keyids r). \<exists>s \<in> set ss. \<exists>k.
        sig_keyid s = kid \<and> map_of ks kid = Some k \<and>
        crypto_verify c (key_public k) msg (sig_bytes s)}"
proof (induction ss arbitrary: seen)
  case Nil
  then show ?case by simp
next
  case (Cons s ss)
  let ?V = "\<lambda>xs. {kid \<in> set (keyids r). \<exists>s \<in> set xs. \<exists>k.
        sig_keyid s = kid \<and> map_of ks kid = Some k \<and>
        crypto_verify c (key_public k) msg (sig_bytes s)}"
  let ?ok = "sig_keyid s \<in> set (keyids r) \<and>
     (\<exists>k. map_of ks (sig_keyid s) = Some k \<and> crypto_verify c (key_public k) msg (sig_bytes s))"
  have V: "?V (s # ss) = (if ?ok then {sig_keyid s} else {}) \<union> ?V ss"
    by auto
  show ?case
  proof (cases "?ok \<and> sig_keyid s \<notin> set seen")
    case True
    then obtain k where k: "map_of ks (sig_keyid s) = Some k"
      "crypto_verify c (key_public k) msg (sig_bytes s)" by blast
    from True Cons.prems have d: "distinct (sig_keyid s # seen)" by simp
    have "valid_keyids c ks r msg (s # ss) seen = valid_keyids c ks r msg ss (sig_keyid s # seen)"
      using True k by simp
    with Cons.IH [OF d] True show ?thesis unfolding V by auto
  next
    case False
    have e: "valid_keyids c ks r msg (s # ss) seen = valid_keyids c ks r msg ss seen"
      using False by (auto split: option.splits)
    from False have "(if ?ok then {sig_keyid s} else {}) \<subseteq> set seen" by auto
    with Cons.IH [OF Cons.prems] show ?thesis unfolding V e by auto
  qed
qed

lemma valid_count_signers: "valid_count c ks r md = card (signers c ks r md)"
proof -
  have "distinct ([] :: string list)" by simp
  note inv = valid_keyids_inv [OF this, of c ks r "canonical c (signed md)" "signatures md"]
  let ?l = "valid_keyids c ks r (canonical c (signed md)) (signatures md) []"
  from inv have d: "distinct ?l" by blast
  from inv have s: "set ?l = signers c ks r md" unfolding signers_def by auto
  from distinct_card [OF d] s show ?thesis by (simp add: valid_count_def)
qed

lemma signers_authorised_only:
  "signers c ks r (md\<lparr>signatures := filter (\<lambda>s. sig_keyid s \<in> set (keyids r)) (signatures md)\<rparr>) =
   signers c ks r md"
  by (auto simp: signers_def)

lemma signers_subset: "signers c ks r md \<subseteq> set (keyids r) \<inter> sig_keyid ` set (signatures md)"
  by (auto simp: signers_def)

lemma verify_Verified_iff:
  "verify c ks r md now = Verified \<longleftrightarrow>
     threshold r \<le> int (card (signers c ks r md)) \<and> now < expires (signed md)"
  by (auto simp: verify_def threshold_met_def valid_count_signers)

text \<open>
  C1. The verifier accepts an envelope for a role exactly when the number of distinct
  key identifiers that are authorised for the role, known to root, and carry a valid
  signature on the envelope reaches the threshold of the role and the payload
  expires after the clock reading. That number is what the verifier counts; it
  cannot exceed the number of distinct key identifiers among the signatures, and
  dropping the signatures of unauthorised keys changes neither it nor the verdict.
\<close>

theorem verify_counts_distinct_authorised_valid_signers:
  "(verify c ks r md now = Verified \<longleftrightarrow>
      threshold r \<le> int (card (signers c ks r md)) \<and> now < expires (signed md)) \<and>
   valid_count c ks r md = card (signers c ks r md) \<and>
   card (signers c ks r md) \<le> card (sig_keyid ` set (signatures md)) \<and>
   valid_count c ks r
     (md\<lparr>signatures := filter (\<lambda>s. sig_keyid s \<in> set (keyids r)) (signatures md)\<rparr>) =
     valid_count c ks r md \<and>
   verify c ks r
     (md\<lparr>signatures := filter (\<lambda>s. sig_keyid s \<in> set (keyids r)) (signatures md)\<rparr>) now =
     verify c ks r md now"
proof -
  have "signers c ks r md \<subseteq> sig_keyid ` set (signatures md)"
    using signers_subset [of c ks r md] by blast
  then have le: "card (signers c ks r md) \<le> card (sig_keyid ` set (signatures md))"
    by (intro card_mono) simp_all
  have vc: "valid_count c ks r
     (md\<lparr>signatures := filter (\<lambda>s. sig_keyid s \<in> set (keyids r)) (signatures md)\<rparr>) =
     valid_count c ks r md"
    by (simp only: valid_count_signers signers_authorised_only)
  have "verify c ks r
     (md\<lparr>signatures := filter (\<lambda>s. sig_keyid s \<in> set (keyids r)) (signatures md)\<rparr>) now =
     verify c ks r md now"
    using vc by (simp add: verify_def threshold_met_def)
  with le vc show ?thesis by (simp add: verify_Verified_iff valid_count_signers)
qed

lemma toy_verify_runs:
  "verify toy_collab (toy_keys [''A'', ''B'', ''C'']) \<lparr>keyids = [''A'', ''B'', ''C''], threshold = 2\<rparr>
     (signed_by [''A''] (new_targets fresh_defaults 100)) 0 = Rejected VerificationFailure"
  "verify toy_collab (toy_keys [''A'', ''B'', ''C'']) \<lparr>keyids = [''A'', ''B'', ''C''], threshold = 2\<rparr>
     (signed_by [''A'', ''B''] (new_targets fresh_defaults 100)) 0 = Verified"
  "verify toy_collab (toy_keys [''A'', ''B'', ''C'']) \<lparr>keyids = [''A'', ''B'', ''C''], threshold = 2\<rparr>
     (signed_by [''A'', ''B'', ''Z''] (new_targets fresh_defaults 100)) 0 = Verified"
  "valid_count toy_collab (toy_keys [''A'', ''B'', ''C'']) \<lparr>keyids = [''A'', ''B'', ''C''], threshold = 2\<rparr>
     (signed_by [''A'', ''B'', ''Z''] (new_targets fresh_defaults 100)) = 2"
  "verify toy_collab (toy_keys [''A'', ''B'', ''C'']) \<lparr>keyids = [''A'', ''B'', ''C''], threshold = 2\<rparr>
     (signed_by [''A'', ''B''] (new_targets fresh_defaults 100)) 100 = Rejected ExpiredMetadata"
  by code_simp+

theorem verify_counts_distinct_authorised_valid_signers_witness:
  "verify toy_collab (toy_keys [''A'', ''B'', ''C'']) \<lparr>keyids = [''A'', ''B'', ''C''], threshold = 2\<rparr>
     (signed_by [''A''] (new_targets fresh_defaults 100)) 0 = Rejected VerificationFailure \<and>
   verify toy_collab (toy_keys [''A'', ''B'', ''C'']) \<lparr>keyids = [''A'', ''B'', ''C''], threshold = 2\<rparr>
     (signed_by [''A'', ''B''] (new_targets fresh_defaults 100)) 0 = Verified \<and>
   verify toy_collab (toy_keys [''A'', ''B'', ''C'']) \<lparr>keyids = [''A'', ''B'', ''C''], threshold = 2\<rparr>
     (signed_by [''A'', ''B'', ''Z''] (new_targets fresh_defaults 100)) 0 = Verified \<and>
   card (signers toy_collab (toy_keys [''A'', ''B'', ''C''])
     \<lparr>keyids = [''A'', ''B'', ''C''], threshold = 2\<rparr>
     (signed_by [''A'', ''B'', ''Z''] (new_targets fresh_defaults 100))) = 2 \<and>
   verify toy_collab (toy_keys [''A'', ''B'', ''C'']) \<lparr>keyids = [''A'', ''B'', ''C''], threshold = 2\<rparr>
     (signed_by [''A'', ''B''] (new_targets fresh_defaults 100)) 100 = Rejected ExpiredMetadata"
  using verify_counts_distinct_authorised_valid_signers
    [of toy_collab "toy_keys [''A'', ''B'', ''C'']" "\<lparr>keyids = [''A'', ''B'', ''C''], threshold = 2\<rparr>"
       "signed_by [''A'', ''B'', ''Z''] (new_targets fresh_defaults 100)" 0]
    toy_verify_runs
  by simp

section \<open>Rotation of the root\<close>

lemma meets_root_threshold_of_signers:
  assumes "root_entry anchor = Some (ks, r)"
  shows "meets_root_threshold_of c anchor md \<longleftrightarrow> threshold r \<le> int (card (signers c ks r md))"
  using assms by (simp add: meets_root_threshold_of_def threshold_met_def valid_count_signers)

text \<open>
  C2. A candidate root replaces the active root exactly when its signatures reach the
  threshold of the \<open>root\<close> role of the active root and also the threshold of the
  \<open>root\<close> role of the candidate itself, each counted with the keys and key
  identifiers of the root in question. In every other case the result is
  RotationError and the active root stays the trust anchor.
\<close>

theorem root_rotation_needs_both_thresholds:
  assumes "root_entry active = Some (ks, r)" and "root_entry candidate = Some (ks', r')"
  shows "(threshold r \<le> int (card (signers c ks r candidate)) \<and>
          threshold r' \<le> int (card (signers c ks' r' candidate)) \<longrightarrow>
            accept_root c active candidate = (None, candidate)) \<and>
         (\<not> (threshold r \<le> int (card (signers c ks r candidate)) \<and>
             threshold r' \<le> int (card (signers c ks' r' candidate))) \<longrightarrow>
            accept_root c active candidate = (Some RotationError, active))"
  using meets_root_threshold_of_signers [OF assms(1), of c candidate]
        meets_root_threshold_of_signers [OF assms(2), of c candidate]
  by (simp add: accept_root_def)

lemma toy_rotation_runs:
  "root_entry (signed_by [''A'', ''B''] (toy_root 1 [''A'', ''B''] 2)) =
     Some (toy_keys [''A'', ''B''], \<lparr>keyids = [''A'', ''B''], threshold = 2\<rparr>)"
  "root_entry (signed_by [''A'', ''B''] (toy_root 2 [''C'', ''D''] 2)) =
     Some (toy_keys [''C'', ''D''], \<lparr>keyids = [''C'', ''D''], threshold = 2\<rparr>)"
  "root_entry (signed_by [''A'', ''B'', ''C'', ''D''] (toy_root 2 [''C'', ''D''] 2)) =
     Some (toy_keys [''C'', ''D''], \<lparr>keyids = [''C'', ''D''], threshold = 2\<rparr>)"
  "valid_count toy_collab (toy_keys [''A'', ''B'']) \<lparr>keyids = [''A'', ''B''], threshold = 2\<rparr>
     (signed_by [''A'', ''B''] (toy_root 2 [''C'', ''D''] 2)) = 2"
  "valid_count toy_collab (toy_keys [''C'', ''D'']) \<lparr>keyids = [''C'', ''D''], threshold = 2\<rparr>
     (signed_by [''A'', ''B''] (toy_root 2 [''C'', ''D''] 2)) = 0"
  "valid_count toy_collab (toy_keys [''A'', ''B'']) \<lparr>keyids = [''A'', ''B''], threshold = 2\<rparr>
     (signed_by [''A'', ''B'', ''C'', ''D''] (toy_root 2 [''C'', ''D''] 2)) = 2"
  "valid_count toy_collab (toy_keys [''C'', ''D'']) \<lparr>keyids = [''C'', ''D''], threshold = 2\<rparr>
     (signed_by [''A'', ''B'', ''C'', ''D''] (toy_root 2 [''C'', ''D''] 2)) = 2"
  by code_simp+

theorem root_rotation_needs_both_thresholds_witness:
  "accept_root toy_collab (signed_by [''A'', ''B''] (toy_root 1 [''A'', ''B''] 2))
     (signed_by [''A'', ''B''] (toy_root 2 [''C'', ''D''] 2)) =
     (Some RotationError, signed_by [''A'', ''B''] (toy_root 1 [''A'', ''B''] 2)) \<and>
   accept_root toy_collab (signed_by [''A'', ''B''] (toy_root 1 [''A'', ''B''] 2))
     (signed_by [''A'', ''B'', ''C'', ''D''] (toy_root 2 [''C'', ''D''] 2)) =
     (None, signed_by [''A'', ''B'', ''C'', ''D''] (toy_root 2 [''C'', ''D''] 2))"
  using root_rotation_needs_both_thresholds [OF toy_rotation_runs(1) toy_rotation_runs(2), of toy_collab]
        root_rotation_needs_both_thresholds [OF toy_rotation_runs(1) toy_rotation_runs(3), of toy_collab]
        toy_rotation_runs(4-7)
  by (simp add: valid_count_signers)

section \<open>Signing\<close>

lemma sign_signed: "signed (sign c kp md) = signed md"
  by (simp add: sign_def)

lemma sign_distinct:
  assumes "distinct (map sig_keyid (signatures md))"
  shows "distinct (map sig_keyid (signatures (sign c kp md)))"
proof -
  have "kp_keyid kp \<notin> sig_keyid ` set (filter (\<lambda>s. sig_keyid s \<noteq> kp_keyid kp) (signatures md))"
    by auto
  with assms show ?thesis
    by (simp add: sign_def make_signature_def distinct_map_filter)
qed

lemma fold_sign_distinct:
  "distinct (map sig_keyid (signatures md)) \<Longrightarrow>
   distinct (map sig_keyid (signatures (fold (sign c) kps md)))"
proof (induction kps arbitrary: md)
  case Nil
  then show ?case by simp
next
  case (Cons kp kps)
  from Cons.IH [OF sign_distinct [OF Cons.prems, of c kp]] show ?case by simp
qed

lemma fold_sign_signed: "signed (fold (sign c) kps md) = signed md"
  by (induction kps arbitrary: md) (simp_all add: sign_signed)

lemma sign_idem: "sign c kp (sign c kp md) = sign c kp md"
  by (simp add: sign_def make_signature_def)

text \<open>
  C5. Signing leaves the payload as it is, drops every signature that bears the key
  identifier of the signing key and appends one signature, made with the private key
  over the canonical encoding of the payload. Hence, on an envelope in which no two
  signatures share a key identifier (one without signatures in particular), none do
  after any sequence of signings; and signing a second time with the same key
  changes nothing.
\<close>

theorem sign_keeps_one_signature_per_key:
  assumes "distinct (map sig_keyid (signatures md))"
  shows "distinct (map sig_keyid (signatures (fold (sign c) kps md))) \<and>
         signed (fold (sign c) kps md) = signed md \<and>
         signatures (sign c kp md) =
           filter (\<lambda>s. sig_keyid s \<noteq> kp_keyid kp) (signatures md) @
           [\<lparr>sig_keyid = kp_keyid kp,
             sig_bytes = crypto_sign c (kp_private kp) (canonical c (signed md))\<rparr>] \<and>
         sign c kp (sign c kp md) = sign c kp md"
  using fold_sign_distinct [OF assms, of c kps]
  by (simp add: fold_sign_signed sign_idem) (simp add: sign_def make_signature_def)

lemma toy_resign_runs:
  "map sig_keyid (signatures (signed_by [''A'', ''B''] (new_targets fresh_defaults 100))) =
     [''A'', ''B'']"
  "map sig_keyid (signatures (signed_by [''A'', ''B'', ''A''] (new_targets fresh_defaults 100))) =
     [''B'', ''A'']"
  by code_simp+

theorem sign_keeps_one_signature_per_key_witness:
  "map sig_keyid (signatures (signed_by [''A'', ''B''] (new_targets fresh_defaults 100))) =
     [''A'', ''B''] \<and>
   map sig_keyid (signatures (signed_by [''A'', ''B'', ''A''] (new_targets fresh_defaults 100))) =
     [''B'', ''A''] \<and>
   distinct (map sig_keyid (signatures
     (fold (sign toy_collab) [toy_key_pair ''A'', toy_key_pair ''A'']
        (signed_by [''A'', ''B''] (new_targets fresh_defaults 100))))) \<and>
   sign toy_collab (toy_key_pair ''A'')
     (sign toy_collab (toy_key_pair ''A'') (signed_by [''A'', ''B''] (new_targets fresh_defaults 100))) =
   sign toy_collab (toy_key_pair ''A'') (signed_by [''A'', ''B''] (new_targets fresh_defaults 100))"
proof -
  have d: "distinct (map sig_keyid
    (signatures (signed_by [''A'', ''B''] (new_targets fresh_defaults 100))))"
    by (simp add: toy_resign_runs(1))
  note t = sign_keeps_one_signature_per_key
    [OF d, of toy_collab "[toy_key_pair ''A'', toy_key_pair ''A'']" "toy_key_pair ''A''"]
  have a: "distinct (map sig_keyid (signatures
     (fold (sign toy_collab) [toy_key_pair ''A'', toy_key_pair ''A'']
        (signed_by [''A'', ''B''] (new_targets fresh_defaults 100)))))"
    by (rule conjunct1 [OF t])
  have b: "sign toy_collab (toy_key_pair ''A'')
     (sign toy_collab (toy_key_pair ''A'') (signed_by [''A'', ''B''] (new_targets fresh_defaults 100))) =
   sign toy_collab (toy_key_pair ''A'') (signed_by [''A'', ''B''] (new_targets fresh_defaults 100))"
    by (rule conjunct2 [OF conjunct2 [OF conjunct2 [OF t]]])
  show ?thesis
    by (intro conjI) (rule toy_resign_runs(1), rule toy_resign_runs(2), rule a, rule b)
qed

section \<open>Publishing a version twice\<close>









end
